theory Spec2Isabelle
  imports Complex_Main
begin

section \<open>Litter-box event classification and session analytics (app.py)\<close>

text \<open>
  A shallow embedding of the classification, look-ahead correlation, visit grouping,
  cycle and dwell analysis and ledger operations of \<^verbatim>\<open>app.py\<close>.

  Conventions of the embedding:
  \<^item> a \<^verbatim>\<open>datetime\<close> is the number of seconds since 0001-01-01 00:00:00 (an \<open>int\<close>);
    the \<^verbatim>\<open>timestamp\<close> text column (\<^verbatim>\<open>'%Y-%m-%d %H:%M:%S'\<close>) is a one-to-one rendering
    of it, so a row carries the single field \<open>dt\<close> for both, and the \<^verbatim>\<open>date\<close> and
    \<^verbatim>\<open>time\<close> columns (functions of it) are left out;
  \<^item> a Python \<^verbatim>\<open>float\<close> is the real number that the double stands for, and
    \<^verbatim>\<open>weight - target\<close> is rounded to the nearest double (\<open>float_sub\<close>); the values
    NaN and infinity are not represented;
  \<^item> the quotients of whole seconds by 60 are taken exactly: they are compared with the whole
    numbers 7, 10 and 30 and truncated to whole minutes, which the rounding to a double
    does not change for the times of a datetime;
  \<^item> a file is read into rows of fields (\<open>read_row\<close>): what the text alone determines;
    the year of the upload and \<^verbatim>\<open>TIMEZONE_OFFSET\<close> turn them into parsed rows;
  \<^item> activity text is ASCII; \<^verbatim>\<open>str.lower\<close> acts on the letters A to Z;
  \<^item> a reason is kept as the message template with its arguments (datatype \<open>reason\<close>);
    \<open>reason_text\<close> gives the text the program stores.
\<close>

subsection \<open>Text helpers\<close>

definition lower_char :: "char \<Rightarrow> char" where
  "lower_char c =
     (case map_of (zip ''ABCDEFGHIJKLMNOPQRSTUVWXYZ'' ''abcdefghijklmnopqrstuvwxyz'') c of
        Some l \<Rightarrow> l
      | None \<Rightarrow> c)"

definition lower :: "string \<Rightarrow> string" where
  "lower s = map lower_char s"

fun starts_with :: "string \<Rightarrow> string \<Rightarrow> bool" where
  "starts_with s [] = True"
| "starts_with [] (k # ks) = False"
| "starts_with (c # s) (k # ks) = (c = k \<and> starts_with s ks)"

text \<open>Python's \<^verbatim>\<open>k in s\<close> on strings: \<open>k\<close> occurs in \<open>s\<close> as a contiguous block.\<close>

fun contains :: "string \<Rightarrow> string \<Rightarrow> bool" where
  "contains k [] = (k = [])"
| "contains k (c # s) = (starts_with (c # s) k \<or> contains k s)"

definition digit_char :: "nat \<Rightarrow> char" where
  "digit_char n = ''0123456789'' ! (n mod 10)"

function str_nat :: "nat \<Rightarrow> string" where
  "str_nat n = (if n < 10 then [digit_char n] else str_nat (n div 10) @ [digit_char n])"
  by pat_completeness auto
termination
  by (relation "measure id") auto

declare str_nat.simps [simp del]

text \<open>
  Python's \<^verbatim>\<open>int(x)\<close> on a float truncates towards zero.
\<close>

definition py_int :: "real \<Rightarrow> int" where
  "py_int x = (if 0 \<le> x then \<lfloor>x\<rfloor> else \<lceil>x\<rceil>)"

text \<open>
  The format \<^verbatim>\<open>{x:.1f}\<close>: one digit after the point, the tenth nearest to the value of
  the double, a value midway between two tenths going to the even digit.
\<close>

definition round_half_even :: "real \<Rightarrow> int" where
  "round_half_even t =
     (let f = \<lfloor>t\<rfloor>; d = t - of_int f
      in if d < 1 / 2 then f else if 1 / 2 < d then f + 1 else if even f then f else f + 1)"

definition fmt_1f :: "real \<Rightarrow> string" where
  "fmt_1f x =
     (let n = nat (round_half_even (\<bar>x\<bar> * 10))
      in (if x < 0 then ''-'' else '''') @ str_nat (n div 10) @ ''.'' @ [digit_char n])"

subsection \<open>Floats\<close>

text \<open>
  \<open>pow2 k\<close> is \<open>2\<close> to the power \<open>k\<close>, and \<open>expo y\<close> the binary exponent of a
  positive \<open>y\<close>: the \<open>e\<close> with \<open>2 ^ e \<le> y < 2 ^ (e + 1)\<close>.
\<close>

definition pow2 :: "int \<Rightarrow> real" where
  "pow2 k = (if 0 \<le> k then 2 ^ nat k else 1 / 2 ^ nat (- k))"

function expo :: "real \<Rightarrow> int" where
  "expo y = (if y \<le> 0 then 0
             else if 2 \<le> y then expo (y / 2) + 1
             else if y < 1 then expo (y * 2) - 1
             else 0)"
  by pat_completeness auto
termination
proof (relation "measure (\<lambda>y. if 1 \<le> y then nat \<lfloor>y\<rfloor> else 1 + nat \<lceil>1 / y\<rceil>)")
  show "wf (measure (\<lambda>y. if 1 \<le> y then nat \<lfloor>y\<rfloor> else 1 + nat \<lceil>1 / y\<rceil>))" by simp
next
  fix y :: real
  assume "\<not> y \<le> 0" "2 \<le> y"
  then have "\<lfloor>y / 2\<rfloor> < \<lfloor>y\<rfloor>" by linarith
  moreover have "0 < \<lfloor>y\<rfloor>" using \<open>2 \<le> y\<close> by linarith
  ultimately show "(y / 2, y) \<in> measure (\<lambda>y. if 1 \<le> y then nat \<lfloor>y\<rfloor> else 1 + nat \<lceil>1 / y\<rceil>)"
    using \<open>2 \<le> y\<close> by auto
next
  fix y :: real
  assume y: "\<not> y \<le> 0" "\<not> 2 \<le> y" "y < 1"
  then have pos: "0 < y" by simp
  have big: "1 < 1 / y" using y pos by (simp add: field_simps)
  show "(y * 2, y) \<in> measure (\<lambda>y. if 1 \<le> y then nat \<lfloor>y\<rfloor> else 1 + nat \<lceil>1 / y\<rceil>)"
  proof (cases "1 \<le> y * 2")
    case True
    then have "\<lfloor>y * 2\<rfloor> = 1" using y by linarith
    moreover have "2 \<le> \<lceil>1 / y\<rceil>" using big by linarith
    ultimately show ?thesis using True y by auto
  next
    case False
    define z where "z = 1 / y"
    have z: "1 < z" using big by (simp add: z_def)
    have "2 \<le> \<lceil>z\<rceil>" using z by linarith
    then have "2 \<le> real_of_int \<lceil>z\<rceil>" by linarith
    moreover have "z \<le> real_of_int \<lceil>z\<rceil>" by (rule le_of_int_ceiling)
    ultimately have "z / 2 \<le> real_of_int (\<lceil>z\<rceil> - 1)" by linarith
    then have "\<lceil>z / 2\<rceil> \<le> \<lceil>z\<rceil> - 1" by (rule ceiling_le)
    moreover have "0 < \<lceil>z\<rceil>" using z by linarith
    ultimately have "nat \<lceil>z / 2\<rceil> < nat \<lceil>z\<rceil>" by linarith
    moreover have "1 / (y * 2) = z / 2" by (simp add: z_def)
    ultimately have "nat \<lceil>1 / (y * 2)\<rceil> < nat \<lceil>1 / y\<rceil>"
      by (simp only: z_def)
    then show ?thesis using False y by simp
  qed
qed

declare expo.simps [simp del]

text \<open>
  \<open>fl x\<close> is the double nearest to \<open>x\<close> (IEEE 754 binary64, round to nearest, ties to
  the even significand): a multiple of \<open>2 ^ (e - 52)\<close> for the exponent \<open>e\<close> of \<open>x\<close>, or of
  \<open>2 ^ - 1074\<close> below the normal range. It is what Python's \<^verbatim>\<open>float\<close> makes of a decimal
  text and what an arithmetic operation makes of its exact result. Results of
  \<open>2 ^ 1024\<close> and beyond (infinity) are not represented.
\<close>

definition fl :: "real \<Rightarrow> real" where
  "fl x =
     (if x = 0 then 0
      else (let e = max (expo \<bar>x\<bar>) (- 1022); u = pow2 (e - 52)
            in real_of_int (round_half_even (x / u)) * u))"

text \<open>Python's \<^verbatim>\<open>a - b\<close> on floats.\<close>

definition float_sub :: "real \<Rightarrow> real \<Rightarrow> real" where
  "float_sub a b = fl (a - b)"

subsection \<open>Data model\<close>

text \<open>
  The keys \<^verbatim>\<open>dt\<close>/\<^verbatim>\<open>timestamp\<close>, \<^verbatim>\<open>activity\<close> and \<^verbatim>\<open>weight\<close> are shared by the rows
  parsed from an upload and the rows of \<^verbatim>\<open>usage_logs\<close>; both records extend \<open>reading\<close>.
\<close>

record reading =
  dt :: int
  activity :: string
  weight :: real

record parsed_row = reading +
  raw_val :: string

record profile =
  name :: string
  target_weight :: real
  color_hex :: string
  birthday :: "string option"

text \<open>
  The reasons the program writes, each with the text it stands for:
  \<^item> \<open>No_Reason\<close>: the empty string;
  \<^item> \<open>Machine_Operation\<close>: \<^verbatim>\<open>"Machine Operation"\<close>;
  \<^item> \<open>Motion_No_Weight\<close>: \<^verbatim>\<open>"Motion detected (No weight)"\<close>;
  \<^item> \<open>Weight_Too_Low w\<close>: \<^verbatim>\<open>f"Weight too low ({weight} lbs)"\<close>;
  \<^item> \<open>No_Match b d\<close>:
    \<^verbatim>\<open>f"No match within {WEIGHT_TOLERANCE}lbs (Closest: {best_match} @ {closest_diff:.1f} diff)"\<close>;
  \<^item> \<open>Matched w m\<close>: \<^verbatim>\<open>f"Matched w/ {future_row['weight']}lbs (+{int(time_diff)}m)"\<close>;
  \<^item> \<open>No_Weight_Found\<close>: \<^verbatim>\<open>"No weight found in 7m"\<close>;
  \<^item> \<open>Restored_from_Blacklist\<close>: \<^verbatim>\<open>'Restored from Blacklist'\<close>.
\<close>

datatype reason =
    No_Reason
  | Machine_Operation
  | Motion_No_Weight
  | Weight_Too_Low real
  | No_Match string real
  | Matched real int
  | No_Weight_Found
  | Restored_from_Blacklist

definition str_int :: "int \<Rightarrow> string" where
  "str_int i = (if i < 0 then ''-'' @ str_nat (nat (- i)) else str_nat (nat i))"

text \<open>
  The stored text of a reason. \<open>str_float\<close> stands for Python's \<^verbatim>\<open>str\<close> of a float
  (the shortest decimal that reads back as the same float), which has no counterpart on
  exact reals; \<^verbatim>\<open>WEIGHT_TOLERANCE = 2.0\<close> prints as \<^verbatim>\<open>2.0\<close>.
\<close>

fun reason_text :: "(real \<Rightarrow> string) \<Rightarrow> reason \<Rightarrow> string" where
  "reason_text str_float No_Reason = ''''"
| "reason_text str_float Machine_Operation = ''Machine Operation''"
| "reason_text str_float Motion_No_Weight = ''Motion detected (No weight)''"
| "reason_text str_float (Weight_Too_Low w) = ''Weight too low ('' @ str_float w @ '' lbs)''"
| "reason_text str_float (No_Match b d) =
     ''No match within 2.0lbs (Closest: '' @ b @ '' @ '' @ fmt_1f d @ '' diff)''"
| "reason_text str_float (Matched w m) =
     ''Matched w/ '' @ str_float w @ ''lbs (+'' @ str_int m @ ''m)''"
| "reason_text str_float No_Weight_Found = ''No weight found in 7m''"
| "reason_text str_float Restored_from_Blacklist = ''Restored from Blacklist''"

subsection \<open>Classification (\<^verbatim>\<open>classify_row\<close>)\<close>

definition WEIGHT_TOLERANCE :: real where
  "WEIGHT_TOLERANCE = 2"

definition sys_keywords :: "string list" where
  "sys_keywords = [''clean'', ''cycle'', ''reset'', ''power'', ''bonnet'', ''ready'', ''full'']"

text \<open>
  The loop of step 3, from the state \<open>(best_match, closest_diff)\<close>: a profile replaces the
  running best only when its difference is strictly smaller. The literal \<^verbatim>\<open>99.9\<close> is the
  double just above it; no double lies between the two, so a difference is below the one
  exactly when it is below the other.
\<close>

fun nearest :: "real \<Rightarrow> profile list \<Rightarrow> string \<times> real \<Rightarrow> string \<times> real" where
  "nearest w [] (best_match, closest_diff) = (best_match, closest_diff)"
| "nearest w (cat # cats) (best_match, closest_diff) =
     (let diff = \<bar>float_sub w (target_weight cat)\<bar>
      in if diff < closest_diff then nearest w cats (name cat, diff)
         else nearest w cats (best_match, closest_diff))"

definition classify_row :: "'a reading_scheme \<Rightarrow> profile list \<Rightarrow> string \<times> reason" where
  "classify_row row profiles =
     (let activity = lower (activity row); weight = weight row
      in if list_ex (\<lambda>k. contains k activity) sys_keywords then (''System'', Machine_Operation)
         else if contains ''cat detected'' activity \<and> weight < 0.5
           then (''Unknown'', Motion_No_Weight)
         else if weight < 0.5 then (''Error'', Weight_Too_Low weight)
         else
           (let (best_match, closest_diff) = nearest weight profiles (''Unknown'', 99.9)
            in if closest_diff \<le> WEIGHT_TOLERANCE then (best_match, No_Reason)
               else (''Unknown'', No_Match best_match closest_diff)))"

subsection \<open>Look-ahead correlation (\<^verbatim>\<open>upload_file\<close>, step 3)\<close>

text \<open>
  The inner loop over \<^verbatim>\<open>range(i + 1, min(i + 20, len(parsed_rows)))\<close>, on the rows of that
  range in order. The state is \<open>(cat_id, reason)\<close>; both \<^verbatim>\<open>break\<close>s end the recursion.
\<close>

fun look_ahead ::
  "parsed_row \<Rightarrow> profile list \<Rightarrow> parsed_row list \<Rightarrow> string \<times> reason \<Rightarrow> string \<times> reason" where
  "look_ahead row profiles [] (cat_id, reason) = (cat_id, reason)"
| "look_ahead row profiles (future_row # rest) (cat_id, reason) =
     (let time_diff = real_of_int (dt future_row - dt row) / 60
      in if time_diff > 7 then (cat_id, reason)
         else if contains ''weight recorded'' (lower (activity future_row))
                 \<and> weight future_row > 0.5
           then (fst (classify_row future_row profiles),
                 Matched (weight future_row) (py_int time_diff))
         else look_ahead row profiles rest (cat_id, reason))"

definition look_ahead_range :: "nat \<Rightarrow> parsed_row list \<Rightarrow> parsed_row list" where
  "look_ahead_range i parsed_rows =
     map (\<lambda>j. parsed_rows ! j) [i + 1 ..< min (i + 20) (length parsed_rows)]"

text \<open>The identity and reason written for \<^verbatim>\<open>parsed_rows[i]\<close> (lines 472 to 484).\<close>

definition classify_with_look_ahead ::
  "nat \<Rightarrow> parsed_row list \<Rightarrow> profile list \<Rightarrow> string \<times> reason" where
  "classify_with_look_ahead i parsed_rows profiles =
     (let row = parsed_rows ! i;
          (cat_id, reason) = classify_row row profiles
      in if contains ''cat detected'' (lower (activity row))
         then (let (cat_id, reason) =
                     look_ahead row profiles (look_ahead_range i parsed_rows) (cat_id, reason)
               in if cat_id = ''Unknown'' then (cat_id, No_Weight_Found) else (cat_id, reason))
         else (cat_id, reason))"

subsection \<open>The ledger: tables, insertion, upload, corrections\<close>

text \<open>
  \<^verbatim>\<open>metadata\<close> is \<^verbatim>\<open>json.dumps({'raw_val': ...})\<close> on upload and \<^verbatim>\<open>'{}'\<close> on restore.
\<close>

datatype meta_json = Raw_val string | Empty_object

record log_row = reading +
  metadata :: meta_json
  cat_identity :: string
  flag_reason :: reason

record blacklist_row =
  bl_timestamp :: int
  bl_weight :: real
  bl_reason :: string

record upload_record =
  upload_date :: string
  filename :: string
  entries_added :: nat

record db =
  usage_logs :: "log_row list"
  upload_history :: "upload_record list"
  data_blacklist :: "blacklist_row list"
  cat_profiles :: "profile list"

datatype sql_error = IntegrityError

text \<open>
  \<^verbatim>\<open>INSERT INTO usage_logs\<close>: the timestamp is the primary key, and a second row with
  a stored key raises \<^verbatim>\<open>sqlite3.IntegrityError\<close>.
\<close>

definition insert_usage_log :: "log_row \<Rightarrow> log_row list \<Rightarrow> sql_error + log_row list" where
  "insert_usage_log e logs =
     (if dt e \<in> set (map dt logs) then Inl IntegrityError else Inr (logs @ [e]))"

text \<open>One round of the loop of lines 471 to 490, on the state \<open>(usage_logs, added)\<close>.\<close>

definition ingest_step ::
  "parsed_row list \<Rightarrow> profile list \<Rightarrow> log_row list \<times> nat \<Rightarrow> nat \<Rightarrow> log_row list \<times> nat" where
  "ingest_step parsed_rows profiles st i =
     (let (logs, added) = st;
          row = parsed_rows ! i;
          (cat_id, reason) = classify_with_look_ahead i parsed_rows profiles
      in case insert_usage_log
                \<lparr>dt = dt row, activity = activity row, weight = weight row,
                 metadata = Raw_val (raw_val row), cat_identity = cat_id,
                 flag_reason = reason\<rparr> logs of
           Inr logs' \<Rightarrow> (logs', added + 1)
         | Inl IntegrityError \<Rightarrow> (logs, added))"

definition ingest ::
  "parsed_row list \<Rightarrow> profile list \<Rightarrow> log_row list \<Rightarrow> log_row list \<times> nat" where
  "ingest parsed_rows profiles logs =
     foldl (ingest_step parsed_rows profiles) (logs, 0) [0 ..< length parsed_rows]"

text \<open>
  \<^verbatim>\<open>upload_file\<close> from the rows that the parsing block (lines 442 to 462) accepts,
  in file order (\<open>candidates\<close>; \<open>upload\<close> below derives them from the file and the year): the blacklist filter of line 464, the stable sort of
  line 468, the insertion loop and the audit record. \<open>now\<close> and \<open>fname\<close> are the
  upload date and the file name of the audit record. With no profile the upload is refused.
\<close>

definition upload_file :: "string \<Rightarrow> string \<Rightarrow> parsed_row list \<Rightarrow> db \<Rightarrow> db" where
  "upload_file now fname candidates d =
     (if length (cat_profiles d) = 0 then d
      else
        (let profiles = cat_profiles d;
             blacklist_set = set (map (\<lambda>r. (bl_timestamp r, bl_weight r)) (data_blacklist d));
             parsed_rows =
               sort_key dt (filter (\<lambda>row. (dt row, weight row) \<notin> blacklist_set) candidates);
             (logs, added) = ingest parsed_rows profiles (usage_logs d)
         in d\<lparr>usage_logs := logs,
              upload_history := upload_history d
                @ [\<lparr>upload_date = now, filename = fname, entries_added = added\<rparr>]\<rparr>))"

text \<open>
  What lines 443 to 459 read from one row of the file, before the year comes in: the
  stripped activity and value texts, the numbers of the date and the time as
  \<^verbatim>\<open>map(int, ...)\<close> gives them, the third part of the timestamp, and the weight (the
  float of the value text where it has the unit marker \<^verbatim>\<open>lbs\<close>, else 0.0). A row that
  cannot be read so far (fewer than 3 fields, a part missing, \<^verbatim>\<open>int\<close> or \<^verbatim>\<open>float\<close>
  raising) is skipped by the program whatever the year, and is not a \<open>read_row\<close>.
\<close>

record read_row =
  raw_activity :: string
  ts_month :: int
  ts_day :: int
  ts_hour :: int
  ts_minute :: int
  ts_meridiem :: string
  lbs_weight :: real
  raw_value :: string

text \<open>
  Python's \<^verbatim>\<open>datetime(year, month, day, hour, minute)\<close> in seconds since
  0001-01-01 00:00:00 (the proleptic Gregorian calendar of the \<^verbatim>\<open>datetime\<close> module),
  \<open>None\<close> where it raises \<^verbatim>\<open>ValueError\<close>.
\<close>

definition is_leap :: "int \<Rightarrow> bool" where
  "is_leap y = (y mod 4 = 0 \<and> (y mod 100 \<noteq> 0 \<or> y mod 400 = 0))"

definition days_in_months :: "int \<Rightarrow> int list" where
  "days_in_months y =
     [31, if is_leap y then 29 else 28, 31, 30, 31, 30, 31, 31, 30, 31, 30, 31]"

definition days_before_year :: "int \<Rightarrow> int" where
  "days_before_year y = (y - 1) * 365 + (y - 1) div 4 - (y - 1) div 100 + (y - 1) div 400"

definition days_before_month :: "int \<Rightarrow> int \<Rightarrow> int" where
  "days_before_month y m = sum_list (take (nat (m - 1)) (days_in_months y))"

definition datetime :: "int \<Rightarrow> int \<Rightarrow> int \<Rightarrow> int \<Rightarrow> int \<Rightarrow> int option" where
  "datetime y m d hh mm =
     (if 1 \<le> y \<and> y \<le> 9999 \<and> 1 \<le> m \<and> m \<le> 12
         \<and> 1 \<le> d \<and> d \<le> days_in_months y ! nat (m - 1)
         \<and> 0 \<le> hh \<and> hh \<le> 23 \<and> 0 \<le> mm \<and> mm \<le> 59
      then Some ((days_before_year y + days_before_month y m + d - 1) * 86400
                 + hh * 3600 + mm * 60)
      else None)"

text \<open>
  Lines 450 to 455 and 466 for one row: the 12-hour adjustment, the datetime in the year
  of the upload, the subtraction of \<^verbatim>\<open>TIMEZONE_OFFSET\<close> hours (which raises
  \<^verbatim>\<open>OverflowError\<close> outside the years 1 to 9999), and the parsed row. \<open>None\<close> is the
  \<^verbatim>\<open>continue\<close> of the \<^verbatim>\<open>except\<close> branch.
\<close>

definition parse_row :: "int \<Rightarrow> int \<Rightarrow> read_row \<Rightarrow> parsed_row option" where
  "parse_row current_year TIMEZONE_OFFSET r =
     (let hour = (if lower (ts_meridiem r) = ''pm'' \<and> ts_hour r \<noteq> 12 then ts_hour r + 12
                  else if lower (ts_meridiem r) = ''am'' \<and> ts_hour r = 12 then 0
                  else ts_hour r)
      in case datetime current_year (ts_month r) (ts_day r) hour (ts_minute r) of
           None \<Rightarrow> None
         | Some dt_utc \<Rightarrow>
             (let dt = dt_utc - TIMEZONE_OFFSET * 3600
              in if 0 \<le> dt \<and> dt < 3652059 * 86400
                 then Some \<lparr>dt = dt, activity = raw_activity r, weight = lbs_weight r,
                            raw_val = raw_value r\<rparr>
                 else None))"

text \<open>
  The route \<^verbatim>\<open>/upload\<close> from the rows read from the file: \<open>current_year\<close> is
  \<^verbatim>\<open>datetime.now().year\<close> at the time of the upload.
\<close>

definition upload ::
  "int \<Rightarrow> int \<Rightarrow> string \<Rightarrow> string \<Rightarrow> read_row list \<Rightarrow> db \<Rightarrow> db" where
  "upload current_year TIMEZONE_OFFSET now fname rows d =
     upload_file now fname (List.map_filter (parse_row current_year TIMEZONE_OFFSET) rows) d"



subsection \<open>Visit grouping (\<^verbatim>\<open>dashboard\<close>, \<^verbatim>\<open>analysis\<close>)\<close>

text \<open>
  The loop of lines 166 to 171 and of lines 392 to 395, on the state
  \<open>(visits, last_time)\<close>; \<^verbatim>\<open>last_time\<close> is assigned only where a visit is counted.
\<close>

fun visit_loop :: "log_row list \<Rightarrow> nat \<times> int option \<Rightarrow> nat \<times> int option" where
  "visit_loop [] (visits, last_time) = (visits, last_time)"
| "visit_loop (row # rows) (visits, last_time) =
     (case last_time of
        None \<Rightarrow> visit_loop rows (visits + 1, Some (dt row))
      | Some t \<Rightarrow>
          if real_of_int (dt row - t) / 60 > 10 then visit_loop rows (visits + 1, Some (dt row))
          else visit_loop rows (visits, last_time))"

text \<open>\<^verbatim>\<open>true_visits\<close> of the dashboard, for one profile name.\<close>

definition true_visits :: "real \<Rightarrow> log_row list \<Rightarrow> string \<Rightarrow> nat" where
  "true_visits thirty_days_ago_dt df cat_name =
     (let cat_df = filter (\<lambda>r. cat_identity r = cat_name) df;
          recent_df = sort_key dt (filter (\<lambda>r. real_of_int (dt r) > thirty_days_ago_dt) cat_df)
      in fst (visit_loop recent_df (0, None)))"

text \<open>
  \<^verbatim>\<open>visits\<close> of the frequency chart, for one day and one identity; the day of a
  datetime is its number of whole days since the origin.
\<close>

definition date_str :: "int \<Rightarrow> int" where
  "date_str t = t div 86400"

definition daily_count :: "log_row list \<Rightarrow> int \<Rightarrow> string \<Rightarrow> nat" where
  "daily_count df day cat =
     (let day_log = sort_key dt (filter (\<lambda>r. date_str (dt r) = day \<and> cat_identity r = cat) df)
      in fst (visit_loop day_log (0, None)))"

subsection \<open>Cycle durations and dwell times (\<^verbatim>\<open>analysis\<close>)\<close>

text \<open>
  A chart point \<^verbatim>\<open>{'x': ..., 'y': ...}\<close>: \<open>point_x\<close> is the timestamp of the cycle
  start, \<open>point_y\<close> the value in minutes to which \<^verbatim>\<open>round\<close> is then applied (to 2
  places for a cycle, to 1 place for a dwell time); the rounding of the float is not
  represented.
\<close>

record point =
  point_x :: int
  point_y :: real

definition cycle_start :: "log_row list \<Rightarrow> log_row list" where
  "cycle_start df = filter (\<lambda>r. activity r = ''Clean Cycle In Progress'') df"

definition cycle_end :: "log_row list \<Rightarrow> log_row list" where
  "cycle_end df = filter (\<lambda>r. activity r = ''Clean Cycle Complete'') df"

text \<open>Lines 348 to 350: the start row of an end row, \<open>None\<close> where the loop continues.\<close>

definition start_row_of :: "log_row list \<Rightarrow> log_row \<Rightarrow> log_row option" where
  "start_row_of df end_row =
     (let start_candidates = filter (\<lambda>s. dt s < dt end_row) (cycle_start df)
      in if start_candidates = [] then None else Some (last start_candidates))"

text \<open>Lines 351 to 354: what one end row appends to \<^verbatim>\<open>machine_health\<close>.\<close>

definition cycle_point :: "log_row list \<Rightarrow> log_row \<Rightarrow> point list" where
  "cycle_point df end_row =
     (case start_row_of df end_row of
        None \<Rightarrow> []
      | Some start_row \<Rightarrow>
          (let duration_sec = real_of_int (dt end_row - dt start_row);
               mask = filter (\<lambda>r. dt r > dt start_row \<and> dt r < dt end_row
                                  \<and> activity r = ''Cycle interrupted'') df
           in if mask = [] \<and> 60 < duration_sec \<and> duration_sec < 300
              then [\<lparr>point_x = dt start_row, point_y = duration_sec / 60\<rparr>] else []))"

definition machine_health :: "log_row list \<Rightarrow> point list" where
  "machine_health df = concat (map (cycle_point df) (cycle_end df))"

text \<open>Lines 366 to 376: what one cycle start appends to \<^verbatim>\<open>cat_points\<close> of \<open>cat\<close>.\<close>

definition dwell_point :: "log_row list \<Rightarrow> string \<Rightarrow> log_row \<Rightarrow> point list" where
  "dwell_point df cat start_row =
     (let virtual_exit = dt start_row - 15 * 60;
          window_start = virtual_exit - 30 * 60;
          candidates = filter (\<lambda>r. dt r \<ge> window_start \<and> dt r \<le> virtual_exit
                                   \<and> contains ''cat detected'' (lower (activity r))) df
      in if candidates = [] then []
         else
           (let last_cat = last candidates
            in if cat_identity last_cat = cat
               then (let dwell_min = real_of_int (virtual_exit - dt last_cat) / 60
                     in if 0 < dwell_min \<and> dwell_min < 30
                        then [\<lparr>point_x = dt start_row, point_y = dwell_min\<rparr>] else [])
               else []))"

definition cat_points :: "log_row list \<Rightarrow> string \<Rightarrow> point list" where
  "cat_points df cat = concat (map (dwell_point df cat) (cycle_start df))"

text \<open>
  The keys of \<^verbatim>\<open>colors\<close>: the profile names (distinct, the name being the primary
  key), then \<^verbatim>\<open>Unknown\<close> and \<^verbatim>\<open>System\<close> where no profile has the name already.
\<close>

definition color_keys :: "profile list \<Rightarrow> string list" where
  "color_keys profiles =
     (let names = map name profiles;
          names = (if ''Unknown'' \<in> set names then names else names @ [''Unknown''])
      in if ''System'' \<in> set names then names else names @ [''System''])"

definition dwell_data :: "log_row list \<Rightarrow> profile list \<Rightarrow> (string \<times> point list) list" where
  "dwell_data df profiles =
     filter (\<lambda>(cat, pts). pts \<noteq> [])
       (map (\<lambda>cat. (cat, cat_points df cat)) (filter (\<lambda>cat. cat \<noteq> ''System'') (color_keys profiles)))"

section \<open>Properties\<close>

subsection \<open>Evaluation on concrete inputs\<close>

lemmas text_eval = lower_def lower_char_def sys_keywords_def

lemma weight_recorded_text:
  "contains ''weight recorded'' (lower ''Weight recorded'')"
  "\<not> contains ''cat detected'' (lower ''Weight recorded'')"
  "\<not> list_ex (\<lambda>k. contains k (lower ''Weight recorded'')) sys_keywords"
  by (simp_all add: text_eval)

lemma cat_detected_text:
  "contains ''cat detected'' (lower ''Cat detected'')"
  "\<not> contains ''weight recorded'' (lower ''Cat detected'')"
  "\<not> list_ex (\<lambda>k. contains k (lower ''Cat detected'')) sys_keywords"
  by (simp_all add: text_eval)

lemma fmt_1f_sentinel: "fmt_1f 99.9 = ''99.9''"
  by (simp add: fmt_1f_def round_half_even_def str_nat.simps digit_char_def Let_def)

text \<open>The doubles of the decimal texts used below, and the differences computed on them.\<close>

lemma fl_values:
  "fl (91 / 10) = 5122844576133939 / 562949953421312"
  "fl (93 / 10) = 2617717283409101 / 281474976710656"
  "fl (73 / 10) = 8219069319951155 / 1125899906842624"
  "fl (120001 / 10000) = 3377727868025543 / 281474976710656"
  by code_simp+

lemma float_sub_values:
  "float_sub 12 10 = 2"
  "float_sub 12 15 = - 3"
  "float_sub 12 14 = - 2"
  "float_sub 12 12 = 0"
  "float_sub 11 10 = 1"
  "float_sub 11 12 = - 1"
  "float_sub 10 200 = - 190"
  "float_sub 100 0 = 100"
  "float_sub 100 200 = - 100"
  "float_sub (1 / 2) 2 = - (3 / 2)"
  "float_sub (5122844576133939 / 562949953421312) 9 = 56294995342131 / 562949953421312"
  "float_sub (5122844576133939 / 562949953421312) 20
     = - (6136154492292301 / 562949953421312)"
  "float_sub (5122844576133939 / 562949953421312) 109
     = - (3514918771674317 / 35184372088832)"
  "float_sub (3377727868025543 / 281474976710656) 10 = 562978100918983 / 281474976710656"
  "float_sub (3377727868025543 / 281474976710656) 15
     = - (844396782634297 / 281474976710656)"
  "float_sub (2617717283409101 / 281474976710656) (8219069319951155 / 1125899906842624)
     = 2251799813685249 / 1125899906842624"
  by code_simp+

subsection \<open>The nearest-neighbour loop\<close>

text \<open>No profile closer than the running difference: the state is returned as it is.\<close>

lemma nearest_keep:
  "\<forall>p\<in>set ps. c \<le> \<bar>float_sub w (target_weight p)\<bar> \<Longrightarrow> nearest w ps (b, c) = (b, c)"
  by (induction ps) (auto simp: Let_def)

text \<open>
  A profile at index \<open>i\<close> that is closer than the running difference, at least as close as
  every profile and strictly closer than every profile before it, is the loop's result.
\<close>

lemma nearest_first_least:
  assumes "i < length ps"
    and "\<bar>float_sub w (target_weight (ps ! i))\<bar> < c"
    and "\<forall>k<length ps. \<bar>float_sub w (target_weight (ps ! i))\<bar> \<le> \<bar>float_sub w (target_weight (ps ! k))\<bar>"
    and "\<forall>k<i. \<bar>float_sub w (target_weight (ps ! i))\<bar> < \<bar>float_sub w (target_weight (ps ! k))\<bar>"
  shows "nearest w ps (b, c) = (name (ps ! i), \<bar>float_sub w (target_weight (ps ! i))\<bar>)"
  using assms
proof (induction ps arbitrary: i b c)
  case Nil
  then show ?case by simp
next
  case (Cons x xs)
  show ?case
  proof (cases i)
    case 0
    have "\<forall>p\<in>set xs. \<bar>float_sub w (target_weight x)\<bar> \<le> \<bar>float_sub w (target_weight p)\<bar>"
    proof
      fix p assume "p \<in> set xs"
      then obtain k where "k < length xs" "xs ! k = p" by (auto simp: in_set_conv_nth)
      with Cons.prems(3) 0 show "\<bar>float_sub w (target_weight x)\<bar> \<le> \<bar>float_sub w (target_weight p)\<bar>"
        by (auto dest: spec [where x = "Suc k"])
    qed
    then have "nearest w xs (name x, \<bar>float_sub w (target_weight x)\<bar>) = (name x, \<bar>float_sub w (target_weight x)\<bar>)"
      by (rule nearest_keep)
    with Cons.prems(2) 0 show ?thesis by simp
  next
    case (Suc i')
    let ?d = "\<bar>float_sub w (target_weight (xs ! i'))\<bar>"
    have lt: "?d < \<bar>float_sub w (target_weight x)\<bar>"
      using Cons.prems(4) Suc by (auto dest: spec [where x = 0])
    have i': "i' < length xs" using Cons.prems(1) Suc by simp
    have least: "\<forall>k<length xs. ?d \<le> \<bar>float_sub w (target_weight (xs ! k))\<bar>"
      using Cons.prems(3) Suc by (auto dest: spec [where x = "Suc k" for k])
    have first: "\<forall>k<i'. ?d < \<bar>float_sub w (target_weight (xs ! k))\<bar>"
      using Cons.prems(4) Suc by (auto dest: spec [where x = "Suc k" for k])
    have c: "?d < c" using Cons.prems(2) Suc by simp
    show ?thesis
    proof (cases "\<bar>float_sub w (target_weight x)\<bar> < c")
      case True
      then show ?thesis
        using Cons.IH [OF i' lt least first] Suc by simp
    next
      case False
      then show ?thesis
        using Cons.IH [OF i' c least first] Suc by simp
    qed
  qed
qed

text \<open>Every non-empty profile list has such an index.\<close>

lemma first_least_exists:
  assumes "ps \<noteq> []"
  shows "\<exists>i<length ps. (\<forall>k<length ps. f (ps ! i) \<le> (f (ps ! k) :: real))
           \<and> (\<forall>k<i. f (ps ! i) < f (ps ! k))"
proof -
  let ?m = "Min (f ` set ps)"
  have fin: "finite (f ` set ps)" "f ` set ps \<noteq> {}" using assms by auto
  then have "?m \<in> f ` set ps" by (rule Min_in)
  then obtain j where j: "j < length ps" "f (ps ! j) = ?m" by (auto simp: in_set_conv_nth)
  define i where "i = (LEAST j. j < length ps \<and> f (ps ! j) = ?m)"
  have i: "i < length ps \<and> f (ps ! i) = ?m"
    unfolding i_def by (rule LeastI [of "\<lambda>j. j < length ps \<and> f (ps ! j) = ?m" j]) (use j in simp)
  have le: "\<forall>k<length ps. ?m \<le> f (ps ! k)" using fin by auto
  have "\<forall>k<i. ?m < f (ps ! k)"
  proof (intro allI impI)
    fix k assume k: "k < i"
    then have "\<not> (k < length ps \<and> f (ps ! k) = ?m)"
      unfolding i_def by (rule not_less_Least)
    moreover have "k < length ps" using k i by simp
    ultimately show "?m < f (ps ! k)" using le by (auto simp: less_le)
  qed
  with i le show ?thesis by auto
qed

subsection \<open>The classifier past its system and weight checks\<close>

lemma classify_row_matching:
  assumes "\<not> list_ex (\<lambda>k. contains k (lower (activity row))) sys_keywords"
    and "0.5 \<le> weight row"
  shows "classify_row row profiles =
     (let (best_match, closest_diff) = nearest (weight row) profiles (''Unknown'', 99.9)
      in if closest_diff \<le> 2 then (best_match, No_Reason)
         else (''Unknown'', No_Match best_match closest_diff))"
  using assms by (simp add: classify_row_def Let_def WEIGHT_TOLERANCE_def)

lemma classify_row_first_least:
  assumes "\<not> list_ex (\<lambda>k. contains k (lower (activity row))) sys_keywords"
    and "0.5 \<le> weight row"
    and "i < length profiles"
    and "\<forall>k<length profiles. \<bar>float_sub (weight row) (target_weight (profiles ! i))\<bar>
            \<le> \<bar>float_sub (weight row) (target_weight (profiles ! k))\<bar>"
    and "\<forall>k<i. \<bar>float_sub (weight row) (target_weight (profiles ! i))\<bar>
            < \<bar>float_sub (weight row) (target_weight (profiles ! k))\<bar>"
  shows "classify_row row profiles =
     (let p = profiles ! i; d = \<bar>float_sub (weight row) (target_weight p)\<bar>
      in if d \<le> 2 then (name p, No_Reason)
         else if d < 99.9 then (''Unknown'', No_Match (name p) d)
         else (''Unknown'', No_Match ''Unknown'' 99.9))"
proof (cases "\<bar>float_sub (weight row) (target_weight (profiles ! i))\<bar> < 99.9")
  case True
  have "nearest (weight row) profiles (''Unknown'', 99.9)
        = (name (profiles ! i), \<bar>float_sub (weight row) (target_weight (profiles ! i))\<bar>)"
    using assms(3) True assms(4,5) by (rule nearest_first_least)
  then show ?thesis
    using True by (simp add: classify_row_matching [OF assms(1,2)] Let_def)
next
  case False
  have "\<forall>p\<in>set profiles. 99.9 \<le> \<bar>float_sub (weight row) (target_weight p)\<bar>"
  proof
    fix p assume "p \<in> set profiles"
    then obtain k where "k < length profiles" "profiles ! k = p" by (auto simp: in_set_conv_nth)
    with assms(4) False show "99.9 \<le> \<bar>float_sub (weight row) (target_weight p)\<bar>" by fastforce
  qed
  then have "nearest (weight row) profiles (''Unknown'', 99.9) = (''Unknown'', 99.9)"
    by (rule nearest_keep)
  then show ?thesis
    using False by (simp add: classify_row_matching [OF assms(1,2)] Let_def)
qed

subsection \<open>Claims on the classifier\<close>

text \<open>
  C6, as amended. For an event that is past the system check and weighs at least 0.5, and
  the first profile \<open>p\<close> of least computed difference \<open>d\<close> (the float
  \<^verbatim>\<open>abs(weight - target_weight)\<close>): when \<open>d \<le> 2.0\<close> the classifier returns the name of
  \<open>p\<close> with the empty reason; when \<open>2.0 < d < 99.9\<close> it returns \<open>Unknown\<close> with a
  reason naming \<open>p\<close> and \<open>d\<close>; from 99.9 on the reason names \<open>Unknown\<close> and 99.9. A
  computed difference of exactly 2.0 matches, and any computed difference above 2.0 gives
  \<open>Unknown\<close>.
\<close>

theorem classify_row_tolerance:
  assumes "\<not> list_ex (\<lambda>k. contains k (lower (activity row))) sys_keywords"
    and "0.5 \<le> weight row"
    and "i < length profiles"
    and "\<forall>k<length profiles. \<bar>float_sub (weight row) (target_weight (profiles ! i))\<bar>
            \<le> \<bar>float_sub (weight row) (target_weight (profiles ! k))\<bar>"
    and "\<forall>k<i. \<bar>float_sub (weight row) (target_weight (profiles ! i))\<bar>
            < \<bar>float_sub (weight row) (target_weight (profiles ! k))\<bar>"
  shows "classify_row row profiles =
           (let p = profiles ! i; d = \<bar>float_sub (weight row) (target_weight p)\<bar>
            in if d \<le> WEIGHT_TOLERANCE then (name p, No_Reason)
               else if d < 99.9 then (''Unknown'', No_Match (name p) d)
               else (''Unknown'', No_Match ''Unknown'' 99.9))
         \<and> (\<bar>float_sub (weight row) (target_weight (profiles ! i))\<bar> = 2.0
              \<longrightarrow> classify_row row profiles = (name (profiles ! i), No_Reason))
         \<and> (2.0 < \<bar>float_sub (weight row) (target_weight (profiles ! i))\<bar>
              \<longrightarrow> fst (classify_row row profiles) = ''Unknown'')"
  using classify_row_first_least [OF assms]
  by (simp add: Let_def WEIGHT_TOLERANCE_def)

theorem classify_row_tolerance_witness:
  "classify_row \<lparr>dt = 0, activity = ''Weight recorded'', weight = 12, raw_val = ''12 lbs''\<rparr>
     [\<lparr>name = ''Luna'', target_weight = 10, color_hex = ''#111111'', birthday = None\<rparr>,
      \<lparr>name = ''Milo'', target_weight = 15, color_hex = ''#222222'', birthday = None\<rparr>]
     = (''Luna'', No_Reason)
   \<and> classify_row
       \<lparr>dt = 0, activity = ''Weight recorded'', weight = fl 12.0001,
        raw_val = ''12.0001 lbs''\<rparr>
       [\<lparr>name = ''Luna'', target_weight = 10, color_hex = ''#111111'', birthday = None\<rparr>,
        \<lparr>name = ''Milo'', target_weight = 15, color_hex = ''#222222'', birthday = None\<rparr>]
     = (''Unknown'', No_Match ''Luna'' (562978100918983 / 281474976710656))"
  using
    classify_row_tolerance [of
      "\<lparr>dt = 0, activity = ''Weight recorded'', weight = 12, raw_val = ''12 lbs''\<rparr>" 0
      "[\<lparr>name = ''Luna'', target_weight = 10, color_hex = ''#111111'', birthday = None\<rparr>,
        \<lparr>name = ''Milo'', target_weight = 15, color_hex = ''#222222'', birthday = None\<rparr>]"]
    classify_row_tolerance [of
      "\<lparr>dt = 0, activity = ''Weight recorded'', weight = fl 12.0001,
        raw_val = ''12.0001 lbs''\<rparr>" 0
      "[\<lparr>name = ''Luna'', target_weight = 10, color_hex = ''#111111'', birthday = None\<rparr>,
        \<lparr>name = ''Milo'', target_weight = 15, color_hex = ''#222222'', birthday = None\<rparr>]"]
  by (simp add: weight_recorded_text fl_values float_sub_values less_Suc_eq WEIGHT_TOLERANCE_def Let_def
      fl_values float_sub_values)

text \<open>
  C6 as stated fails in two places. (1) The closest profile is 99.9 or more away: the
  weight 10 against the single profile Luna of target 200 has the difference 190, and the
  reason names \<open>Unknown\<close> and 99.9, not Luna and 190. (2) The weight is the target plus
  2.0 and the computed difference is above 2.0: for the target 7.3 and the weight 9.3 (as
  floats, where \<^verbatim>\<open>7.3 + 2.0 == 9.3\<close>) the subtraction gives 2 and \<open>2\<close> to the power
  \<open>- 50\<close>, and the classifier returns \<open>Unknown\<close>.
\<close>

theorem classify_row_tolerance_counterexample:
  "\<not> \<bar>float_sub 10 (target_weight
          \<lparr>name = ''Luna'', target_weight = 200, color_hex = ''#111111'', birthday = None\<rparr>)\<bar>
        \<le> WEIGHT_TOLERANCE
   \<and> classify_row \<lparr>dt = 0, activity = ''Weight recorded'', weight = 10, raw_val = ''10 lbs''\<rparr>
       [\<lparr>name = ''Luna'', target_weight = 200, color_hex = ''#111111'', birthday = None\<rparr>]
     = (''Unknown'', No_Match ''Unknown'' 99.9)
   \<and> No_Match ''Unknown'' 99.9 \<noteq> No_Match ''Luna'' 190
   \<and> fl (fl 7.3 + 2.0) = fl 9.3
   \<and> classify_row
       \<lparr>dt = 0, activity = ''Weight recorded'', weight = fl 9.3, raw_val = ''9.3 lbs''\<rparr>
       [\<lparr>name = ''Luna'', target_weight = fl 7.3, color_hex = ''#111111'', birthday = None\<rparr>]
     = (''Unknown'', No_Match ''Luna'' (2 + 1 / 2 ^ 50))"
proof -
  have sum: "fl (fl 7.3 + 2.0) = fl 9.3"
    by code_simp
  show ?thesis
    unfolding sum
    by (simp add: classify_row_def weight_recorded_text fl_values float_sub_values WEIGHT_TOLERANCE_def
        fl_values float_sub_values)
qed

text \<open>
  C7, as amended. Two profiles at indices \<open>i < j\<close> tie for the least difference, no
  profile before \<open>i\<close> being as close, and the difference is below 99.9: the loop records
  the profile at \<open>i\<close>, which is the identity returned within the tolerance and the
  candidate named in the reason beyond it. The classifier is a function of the row and
  the profile list, so the choice is the same on every run.
\<close>

theorem classify_row_tie_break:
  assumes "\<not> list_ex (\<lambda>k. contains k (lower (activity row))) sys_keywords"
    and "0.5 \<le> weight row"
    and "i < j" and "j < length profiles"
    and "\<bar>float_sub (weight row) (target_weight (profiles ! i))\<bar>
           = \<bar>float_sub (weight row) (target_weight (profiles ! j))\<bar>"
    and "\<forall>k<length profiles. \<bar>float_sub (weight row) (target_weight (profiles ! i))\<bar>
            \<le> \<bar>float_sub (weight row) (target_weight (profiles ! k))\<bar>"
    and "\<forall>k<i. \<bar>float_sub (weight row) (target_weight (profiles ! i))\<bar>
            < \<bar>float_sub (weight row) (target_weight (profiles ! k))\<bar>"
    and "\<bar>float_sub (weight row) (target_weight (profiles ! i))\<bar> < 99.9"
  shows "fst (nearest (weight row) profiles (''Unknown'', 99.9)) = name (profiles ! i)
         \<and> classify_row row profiles =
             (if \<bar>float_sub (weight row) (target_weight (profiles ! i))\<bar> \<le> WEIGHT_TOLERANCE
              then (name (profiles ! i), No_Reason)
              else (''Unknown'', No_Match (name (profiles ! i))
                                   \<bar>float_sub (weight row) (target_weight (profiles ! i))\<bar>))"
proof -
  have i: "i < length profiles" using assms(3,4) by simp
  have "nearest (weight row) profiles (''Unknown'', 99.9)
        = (name (profiles ! i), \<bar>float_sub (weight row) (target_weight (profiles ! i))\<bar>)"
    using i assms(8,6,7) by (rule nearest_first_least)
  moreover note classify_row_first_least [OF assms(1,2) i assms(6,7)]
  ultimately show ?thesis
    using assms(8) by (simp add: Let_def WEIGHT_TOLERANCE_def)
qed

theorem classify_row_tie_break_witness:
  "classify_row \<lparr>dt = 0, activity = ''Weight recorded'', weight = 11, raw_val = ''11 lbs''\<rparr>
     [\<lparr>name = ''Luna'', target_weight = 10, color_hex = ''#111111'', birthday = None\<rparr>,
      \<lparr>name = ''Milo'', target_weight = 12, color_hex = ''#222222'', birthday = None\<rparr>]
     = (''Luna'', No_Reason)
   \<and> classify_row \<lparr>dt = 0, activity = ''Weight recorded'', weight = 11, raw_val = ''11 lbs''\<rparr>
     [\<lparr>name = ''Milo'', target_weight = 12, color_hex = ''#222222'', birthday = None\<rparr>,
      \<lparr>name = ''Luna'', target_weight = 10, color_hex = ''#111111'', birthday = None\<rparr>]
     = (''Milo'', No_Reason)"
  using
    classify_row_tie_break [of
      "\<lparr>dt = 0, activity = ''Weight recorded'', weight = 11, raw_val = ''11 lbs''\<rparr>" 0 1
      "[\<lparr>name = ''Luna'', target_weight = 10, color_hex = ''#111111'', birthday = None\<rparr>,
        \<lparr>name = ''Milo'', target_weight = 12, color_hex = ''#222222'', birthday = None\<rparr>]"]
    classify_row_tie_break [of
      "\<lparr>dt = 0, activity = ''Weight recorded'', weight = 11, raw_val = ''11 lbs''\<rparr>" 0 1
      "[\<lparr>name = ''Milo'', target_weight = 12, color_hex = ''#222222'', birthday = None\<rparr>,
        \<lparr>name = ''Luna'', target_weight = 10, color_hex = ''#111111'', birthday = None\<rparr>]"]
  by (simp add: weight_recorded_text fl_values float_sub_values less_Suc_eq WEIGHT_TOLERANCE_def)

text \<open>
  C7 as stated fails in two places. (1) A tie 99.9 or more away: the weight 100 is 100
  away from both the profile of target 0 and the later profile of target 200, and the loop
  records neither; its result is still \<open>Unknown\<close>. (2) A tie that is not for the least
  difference: the weight 12 is 2 away from both Luna (target 10) and the later Milo
  (target 14), and the classifier selects Nala (target 12).
\<close>

theorem classify_row_tie_break_counterexample:
  "\<bar>float_sub 100 (target_weight
          \<lparr>name = ''Luna'', target_weight = 0, color_hex = ''#111111'', birthday = None\<rparr>)\<bar>
     = \<bar>float_sub 100 (target_weight
          \<lparr>name = ''Milo'', target_weight = 200, color_hex = ''#222222'', birthday = None\<rparr>)\<bar>
   \<and> fst (nearest 100
       [\<lparr>name = ''Luna'', target_weight = 0, color_hex = ''#111111'', birthday = None\<rparr>,
        \<lparr>name = ''Milo'', target_weight = 200, color_hex = ''#222222'', birthday = None\<rparr>]
       (''Unknown'', 99.9)) = ''Unknown''
   \<and> ''Unknown'' \<noteq> name
        \<lparr>name = ''Luna'', target_weight = 0, color_hex = ''#111111'', birthday = None\<rparr>
   \<and> classify_row \<lparr>dt = 0, activity = ''Weight recorded'', weight = 100, raw_val = ''100 lbs''\<rparr>
       [\<lparr>name = ''Luna'', target_weight = 0, color_hex = ''#111111'', birthday = None\<rparr>,
        \<lparr>name = ''Milo'', target_weight = 200, color_hex = ''#222222'', birthday = None\<rparr>]
     = (''Unknown'', No_Match ''Unknown'' 99.9)
   \<and> \<bar>float_sub 12 (target_weight
          \<lparr>name = ''Luna'', target_weight = 10, color_hex = ''#111111'', birthday = None\<rparr>)\<bar>
     = \<bar>float_sub 12 (target_weight
          \<lparr>name = ''Milo'', target_weight = 14, color_hex = ''#222222'', birthday = None\<rparr>)\<bar>
   \<and> classify_row \<lparr>dt = 0, activity = ''Weight recorded'', weight = 12, raw_val = ''12 lbs''\<rparr>
       [\<lparr>name = ''Luna'', target_weight = 10, color_hex = ''#111111'', birthday = None\<rparr>,
        \<lparr>name = ''Milo'', target_weight = 14, color_hex = ''#222222'', birthday = None\<rparr>,
        \<lparr>name = ''Nala'', target_weight = 12, color_hex = ''#333333'', birthday = None\<rparr>]
     = (''Nala'', No_Reason)"
  by (simp add: classify_row_def weight_recorded_text fl_values float_sub_values WEIGHT_TOLERANCE_def)

text \<open>
  C10. Every profile is 99.9 or more away (no profile at all included), the event is past
  the system check and weighs at least 0.5: the loop ends in its initial state, the
  identity is \<open>Unknown\<close> and the reason reads
  \<^verbatim>\<open>No match within 2.0lbs (Closest: Unknown @ 99.9 diff)\<close>.
\<close>

theorem classify_row_sentinel:
  assumes "\<not> list_ex (\<lambda>k. contains k (lower (activity row))) sys_keywords"
    and "0.5 \<le> weight row"
    and "\<forall>p\<in>set profiles. 99.9 \<le> \<bar>float_sub (weight row) (target_weight p)\<bar>"
  shows "nearest (weight row) profiles (''Unknown'', 99.9) = (''Unknown'', 99.9)
         \<and> classify_row row profiles = (''Unknown'', No_Match ''Unknown'' 99.9)
         \<and> reason_text str_float (snd (classify_row row profiles))
             = ''No match within 2.0lbs (Closest: Unknown @ 99.9 diff)''"
proof -
  have n: "nearest (weight row) profiles (''Unknown'', 99.9) = (''Unknown'', 99.9)"
    using assms(3) by (rule nearest_keep)
  then have c: "classify_row row profiles = (''Unknown'', No_Match ''Unknown'' 99.9)"
    by (simp add: classify_row_matching [OF assms(1,2)])
  show ?thesis
    using n c fmt_1f_sentinel by simp
qed

theorem classify_row_sentinel_witness:
  "classify_row \<lparr>dt = 0, activity = ''Weight recorded'', weight = fl 9.1, raw_val = ''9.1 lbs''\<rparr> []
     = (''Unknown'', No_Match ''Unknown'' 99.9)
   \<and> classify_row \<lparr>dt = 0, activity = ''Weight recorded'', weight = fl 9.1, raw_val = ''9.1 lbs''\<rparr>
       [\<lparr>name = ''Luna'', target_weight = 109, color_hex = ''#111111'', birthday = None\<rparr>]
     = (''Unknown'', No_Match ''Unknown'' 99.9)
   \<and> reason_text (\<lambda>w. ''9.1'')
       (snd (classify_row
          \<lparr>dt = 0, activity = ''Weight recorded'', weight = fl 9.1, raw_val = ''9.1 lbs''\<rparr>
          [\<lparr>name = ''Luna'', target_weight = 109, color_hex = ''#111111'', birthday = None\<rparr>]))
     = ''No match within 2.0lbs (Closest: Unknown @ 99.9 diff)''"
  using
    classify_row_sentinel [of
      "\<lparr>dt = 0, activity = ''Weight recorded'', weight = fl 9.1, raw_val = ''9.1 lbs''\<rparr>" "[]"
      "\<lambda>w. ''9.1''"]
    classify_row_sentinel [of
      "\<lparr>dt = 0, activity = ''Weight recorded'', weight = fl 9.1, raw_val = ''9.1 lbs''\<rparr>"
      "[\<lparr>name = ''Luna'', target_weight = 109, color_hex = ''#111111'', birthday = None\<rparr>]"
      "\<lambda>w. ''9.1''"]
  by (simp add: weight_recorded_text fl_values float_sub_values fmt_1f_sentinel)

subsection \<open>The visit loop\<close>

lemma visit_loop_append:
  "visit_loop (rows @ rows') st = visit_loop rows' (visit_loop rows st)"
proof (induction rows arbitrary: st)
  case Nil
  show ?case by (cases st) simp
next
  case (Cons row rows)
  obtain visits last_time where st: "st = (visits, last_time)" by (cases st)
  show ?case
    unfolding st by (cases last_time) (simp_all add: Cons.IH)
qed

text \<open>Once a row is read there is an anchor, and at least one visit.\<close>

lemma visit_loop_anchor:
  "visit_loop rows (visits, Some t) = (n, a) \<Longrightarrow> a \<noteq> None \<and> visits \<le> n"
proof (induction rows arbitrary: visits t)
  case Nil
  then show ?case by auto
next
  case (Cons row rows)
  then show ?case
    by (cases "real_of_int (dt row - t) / 60 > 10") (force dest: Cons.IH)+
qed

lemma visit_loop_no_anchor:
  "snd (visit_loop rows (0, None)) = None \<longleftrightarrow> rows = []"
proof (cases rows)
  case Nil
  then show ?thesis by simp
next
  case (Cons row rows')
  obtain n a where r: "visit_loop rows' (1, Some (dt row)) = (n, a)"
    by (cases "visit_loop rows' (1, Some (dt row))")
  from visit_loop_anchor [OF r] show ?thesis
    using Cons r by simp
qed

subsection \<open>Claims on visit grouping\<close>

text \<open>
  C2, as amended. The loop reads the sequence once, and after any prefix \<open>rows\<close> the next
  row starts a new visit exactly when there is no visit yet (the prefix is empty) or the
  row is more than 10 minutes after the anchor; the anchor then becomes the time of that
  row. A row that merges into the open visit leaves the anchor where it is, at the first
  event of the visit: events at \<open>T\<close>, \<open>T + 8 min\<close> and \<open>T + 16 min\<close> are two visits.
\<close>

theorem visit_loop_step:
  "visit_loop (rows @ [row]) (0, None) =
     (case visit_loop rows (0, None) of
        (visits, None) \<Rightarrow> (visits + 1, Some (dt row))
      | (visits, Some anchor) \<Rightarrow>
          if dt row - anchor > 10 * 60 then (visits + 1, Some (dt row))
          else (visits, Some anchor))
   \<and> (snd (visit_loop rows (0, None)) = None \<longleftrightarrow> rows = [])
   \<and> (dt r2 = dt r1 + 8 * 60 \<and> dt r3 = dt r1 + 16 * 60
        \<longrightarrow> visit_loop [r1, r2, r3] (0, None) = (2, Some (dt r3)))"
proof -
  obtain visits last_time where st: "visit_loop rows (0, None) = (visits, last_time)"
    by (cases "visit_loop rows (0, None)")
  have "visit_loop (rows @ [row]) (0, None) = visit_loop [row] (visits, last_time)"
    by (simp add: visit_loop_append st)
  then have step: "visit_loop (rows @ [row]) (0, None) =
     (case visit_loop rows (0, None) of
        (visits, None) \<Rightarrow> (visits + 1, Some (dt row))
      | (visits, Some anchor) \<Rightarrow>
          if dt row - anchor > 10 * 60 then (visits + 1, Some (dt row))
          else (visits, Some anchor))"
    by (cases last_time) (simp_all add: st)
  show ?thesis
    using step visit_loop_no_anchor [of rows] by simp
qed

theorem visit_loop_step_witness:
  "visit_loop
     ([\<lparr>dt = 0, activity = ''Cat detected'', weight = 0, metadata = Raw_val ''0'',
        cat_identity = ''Luna'', flag_reason = No_Reason\<rparr>,
       \<lparr>dt = 480, activity = ''Cat detected'', weight = 0, metadata = Raw_val ''0'',
        cat_identity = ''Luna'', flag_reason = No_Reason\<rparr>]
      @ [\<lparr>dt = 960, activity = ''Cat detected'', weight = 0, metadata = Raw_val ''0'',
          cat_identity = ''Luna'', flag_reason = No_Reason\<rparr>]) (0, None)
   = (2, Some 960)
   \<and> visit_loop
       [\<lparr>dt = 0, activity = ''Cat detected'', weight = 0, metadata = Raw_val ''0'',
         cat_identity = ''Luna'', flag_reason = No_Reason\<rparr>,
        \<lparr>dt = 480, activity = ''Cat detected'', weight = 0, metadata = Raw_val ''0'',
         cat_identity = ''Luna'', flag_reason = No_Reason\<rparr>,
        \<lparr>dt = 960, activity = ''Cat detected'', weight = 0, metadata = Raw_val ''0'',
         cat_identity = ''Luna'', flag_reason = No_Reason\<rparr>] (0, None)
   = (2, Some 960)"
  using visit_loop_step [of
    "[\<lparr>dt = 0, activity = ''Cat detected'', weight = 0, metadata = Raw_val ''0'',
       cat_identity = ''Luna'', flag_reason = No_Reason\<rparr>,
      \<lparr>dt = 480, activity = ''Cat detected'', weight = 0, metadata = Raw_val ''0'',
       cat_identity = ''Luna'', flag_reason = No_Reason\<rparr>]"
    "\<lparr>dt = 960, activity = ''Cat detected'', weight = 0, metadata = Raw_val ''0'',
      cat_identity = ''Luna'', flag_reason = No_Reason\<rparr>"
    "\<lparr>dt = 480, activity = ''Cat detected'', weight = 0, metadata = Raw_val ''0'',
      cat_identity = ''Luna'', flag_reason = No_Reason\<rparr>"
    "\<lparr>dt = 0, activity = ''Cat detected'', weight = 0, metadata = Raw_val ''0'',
      cat_identity = ''Luna'', flag_reason = No_Reason\<rparr>"
    "\<lparr>dt = 960, activity = ''Cat detected'', weight = 0, metadata = Raw_val ''0'',
      cat_identity = ''Luna'', flag_reason = No_Reason\<rparr>"]
  by simp

text \<open>
  C2 as stated fails on its own example: events at 0, 8 and 16 minutes are counted as two
  visits, not one, and after the event at 8 minutes has merged the anchor is still the
  time 0 of the first event.
\<close>

theorem visit_loop_step_counterexample:
  "fst (visit_loop
     [\<lparr>dt = 0, activity = ''Cat detected'', weight = 0, metadata = Raw_val ''0'',
       cat_identity = ''Luna'', flag_reason = No_Reason\<rparr>,
      \<lparr>dt = 8 * 60, activity = ''Cat detected'', weight = 0, metadata = Raw_val ''0'',
       cat_identity = ''Luna'', flag_reason = No_Reason\<rparr>,
      \<lparr>dt = 16 * 60, activity = ''Cat detected'', weight = 0, metadata = Raw_val ''0'',
       cat_identity = ''Luna'', flag_reason = No_Reason\<rparr>] (0, None)) = 2
   \<and> snd (visit_loop
     [\<lparr>dt = 0, activity = ''Cat detected'', weight = 0, metadata = Raw_val ''0'',
       cat_identity = ''Luna'', flag_reason = No_Reason\<rparr>,
      \<lparr>dt = 8 * 60, activity = ''Cat detected'', weight = 0, metadata = Raw_val ''0'',
       cat_identity = ''Luna'', flag_reason = No_Reason\<rparr>] (0, None)) = Some 0
   \<and> true_visits (- 1)
     [\<lparr>dt = 0, activity = ''Cat detected'', weight = 0, metadata = Raw_val ''0'',
       cat_identity = ''Luna'', flag_reason = No_Reason\<rparr>,
      \<lparr>dt = 8 * 60, activity = ''Cat detected'', weight = 0, metadata = Raw_val ''0'',
       cat_identity = ''Luna'', flag_reason = No_Reason\<rparr>,
      \<lparr>dt = 16 * 60, activity = ''Cat detected'', weight = 0, metadata = Raw_val ''0'',
       cat_identity = ''Luna'', flag_reason = No_Reason\<rparr>] ''Luna'' \<noteq> 1"
  by (simp add: true_visits_def)

text \<open>
  C3. Three events of one identity at \<open>T\<close>, \<open>T + 5 min\<close> and \<open>T + 12 min\<close> are two
  visits: in the loop itself, in the dashboard's count (the events being inside the
  30 days) and in the frequency chart's count of their day.
\<close>

theorem three_events_two_visits:
  assumes "dt r2 = dt r1 + 5 * 60" and "dt r3 = dt r1 + 12 * 60"
  shows "fst (visit_loop [r1, r2, r3] (0, None)) = 2
   \<and> (cat_identity r1 = cat \<and> cat_identity r2 = cat \<and> cat_identity r3 = cat
        \<and> thirty_days_ago_dt < real_of_int (dt r1)
        \<longrightarrow> true_visits thirty_days_ago_dt [r1, r2, r3] cat = 2)
   \<and> (cat_identity r1 = cat \<and> cat_identity r2 = cat \<and> cat_identity r3 = cat
        \<and> date_str (dt r1) = day \<and> date_str (dt r2) = day \<and> date_str (dt r3) = day
        \<longrightarrow> daily_count [r1, r2, r3] day cat = 2)"
  using assms by (simp add: true_visits_def daily_count_def)

theorem three_events_two_visits_witness:
  "true_visits 0
     [\<lparr>dt = 1000, activity = ''Cat detected'', weight = 0, metadata = Raw_val ''0'',
       cat_identity = ''Luna'', flag_reason = No_Reason\<rparr>,
      \<lparr>dt = 1300, activity = ''Weight recorded'', weight = fl 9.1, metadata = Raw_val ''9.1 lbs'',
       cat_identity = ''Luna'', flag_reason = No_Reason\<rparr>,
      \<lparr>dt = 1720, activity = ''Cat detected'', weight = 0, metadata = Raw_val ''0'',
       cat_identity = ''Luna'', flag_reason = No_Reason\<rparr>] ''Luna'' = 2
   \<and> daily_count
     [\<lparr>dt = 1000, activity = ''Cat detected'', weight = 0, metadata = Raw_val ''0'',
       cat_identity = ''Luna'', flag_reason = No_Reason\<rparr>,
      \<lparr>dt = 1300, activity = ''Weight recorded'', weight = fl 9.1, metadata = Raw_val ''9.1 lbs'',
       cat_identity = ''Luna'', flag_reason = No_Reason\<rparr>,
      \<lparr>dt = 1720, activity = ''Cat detected'', weight = 0, metadata = Raw_val ''0'',
       cat_identity = ''Luna'', flag_reason = No_Reason\<rparr>] 0 ''Luna'' = 2"
  using three_events_two_visits [of
    "\<lparr>dt = 1300, activity = ''Weight recorded'', weight = fl 9.1, metadata = Raw_val ''9.1 lbs'',
      cat_identity = ''Luna'', flag_reason = No_Reason\<rparr>"
    "\<lparr>dt = 1000, activity = ''Cat detected'', weight = 0, metadata = Raw_val ''0'',
      cat_identity = ''Luna'', flag_reason = No_Reason\<rparr>"
    "\<lparr>dt = 1720, activity = ''Cat detected'', weight = 0, metadata = Raw_val ''0'',
      cat_identity = ''Luna'', flag_reason = No_Reason\<rparr>"
    "''Luna''" 0 0]
  by (simp add: date_str_def)

subsection \<open>The last row of a selection from a time-sorted frame\<close>

lemma sorted_le_last:
  "sorted (map f ys) \<Longrightarrow> y \<in> set ys \<Longrightarrow> f y \<le> f (last ys)"
  by (induction ys) (auto split: if_splits)

lemma last_filter_latest:
  assumes "sorted (map f xs)" and "r \<in> set xs" and "P r"
  shows "f r \<le> f (last (filter P xs))"
proof -
  have "sorted (map f (filter P xs))" using assms(1) by (rule sorted_filter)
  moreover have "r \<in> set (filter P xs)" using assms(2,3) by simp
  ultimately show ?thesis by (rule sorted_le_last)
qed

lemma last_filter_selected:
  "filter P xs \<noteq> [] \<Longrightarrow> last (filter P xs) \<in> set xs \<and> P (last (filter P xs))"
  using last_in_set [of "filter P xs"] by simp

lemma start_row_of_None:
  "start_row_of df end_row = None \<longleftrightarrow>
     \<not> (\<exists>s\<in>set df. activity s = ''Clean Cycle In Progress'' \<and> dt s < dt end_row)"
  by (auto simp: start_row_of_def cycle_start_def Let_def filter_empty_conv)

lemma start_row_of_Some:
  assumes "sorted (map dt df)" and "start_row_of df end_row = Some s"
  shows "s \<in> set df \<and> activity s = ''Clean Cycle In Progress'' \<and> dt s < dt end_row
     \<and> (\<forall>s'\<in>set df. activity s' = ''Clean Cycle In Progress'' \<and> dt s' < dt end_row
            \<longrightarrow> dt s' \<le> dt s)"
proof -
  let ?P = "\<lambda>r. activity r = ''Clean Cycle In Progress'' \<and> dt r < dt end_row"
  have f: "filter (\<lambda>s. dt s < dt end_row) (cycle_start df) = filter ?P df"
    by (simp add: cycle_start_def conj_commute)
  from assms(2) have ne: "filter ?P df \<noteq> []" and s: "s = last (filter ?P df)"
    by (auto simp: start_row_of_def Let_def f split: if_splits)
  from last_filter_selected [OF ne] s
  have "s \<in> set df \<and> activity s = ''Clean Cycle In Progress'' \<and> dt s < dt end_row"
    by simp
  moreover have "\<forall>s'\<in>set df. ?P s' \<longrightarrow> dt s' \<le> dt s"
    using last_filter_latest [OF assms(1), of _ ?P] s by blast
  ultimately show ?thesis by blast
qed

lemma cycle_point_cases:
  "cycle_point df end_row =
     (case start_row_of df end_row of
        None \<Rightarrow> []
      | Some s \<Rightarrow>
          if 60 < dt end_row - dt s \<and> dt end_row - dt s < 300
             \<and> \<not> (\<exists>r\<in>set df. dt s < dt r \<and> dt r < dt end_row
                                \<and> activity r = ''Cycle interrupted'')
          then [\<lparr>point_x = dt s, point_y = real_of_int (dt end_row - dt s) / 60\<rparr>]
          else [])"
  by (auto simp: cycle_point_def Let_def filter_empty_conv split: option.splits)

lemma dwell_point_iff:
  assumes "sorted_wrt (<) (map dt df)"
  shows "dwell_point df cat start_row = [p] \<longleftrightarrow>
     (\<exists>m\<in>set df.
        contains ''cat detected'' (lower (activity m))
        \<and> dt start_row - 45 * 60 \<le> dt m \<and> dt m \<le> dt start_row - 15 * 60
        \<and> (\<forall>m'\<in>set df. contains ''cat detected'' (lower (activity m'))
               \<and> dt start_row - 45 * 60 \<le> dt m' \<and> dt m' \<le> dt start_row - 15 * 60
               \<longrightarrow> dt m' \<le> dt m)
        \<and> cat_identity m = cat
        \<and> 0 < dt start_row - 15 * 60 - dt m \<and> dt start_row - 15 * 60 - dt m < 30 * 60
        \<and> p = \<lparr>point_x = dt start_row,
                point_y = real_of_int (dt start_row - 15 * 60 - dt m) / 60\<rparr>)"
    (is "?L \<longleftrightarrow> (\<exists>m\<in>set df. ?R m)")
proof -
  let ?P = "\<lambda>r. dt r \<ge> dt start_row - 15 * 60 - 30 * 60 \<and> dt r \<le> dt start_row - 15 * 60
                \<and> contains ''cat detected'' (lower (activity r))"
  have srt: "sorted (map dt df)" and dist: "distinct (map dt df)"
    using assms by (simp_all add: strict_sorted_iff)
  show ?thesis
  proof (cases "filter ?P df = []")
    case True
    then have "\<not> ?L" by (simp add: dwell_point_def)
    moreover from True have "\<not> (\<exists>m\<in>set df. ?R m)"
      by (auto simp: filter_empty_conv)
    ultimately show ?thesis by blast
  next
    case False
    let ?l = "last (filter ?P df)"
    from last_filter_selected [OF False] have l: "?l \<in> set df" "?P ?l" by simp_all
    have latest: "\<And>r. r \<in> set df \<Longrightarrow> ?P r \<Longrightarrow> dt r \<le> dt ?l"
      using last_filter_latest [OF srt, of _ ?P] by blast
    have L: "?L \<longleftrightarrow> cat_identity ?l = cat
               \<and> 0 < dt start_row - 15 * 60 - dt ?l \<and> dt start_row - 15 * 60 - dt ?l < 30 * 60
               \<and> p = \<lparr>point_x = dt start_row,
                       point_y = real_of_int (dt start_row - 15 * 60 - dt ?l) / 60\<rparr>"
      using False by (auto simp: dwell_point_def Let_def)
    show ?thesis
    proof
      assume ?L
      with L l latest have "?R ?l" by auto
      with l(1) show "\<exists>m\<in>set df. ?R m" by blast
    next
      assume "\<exists>m\<in>set df. ?R m"
      then obtain m where m: "m \<in> set df" "?R m" by blast
      then have "?P m" by simp
      with latest m(1) have "dt m \<le> dt ?l" by blast
      moreover from m(2) l have "dt ?l \<le> dt m" by simp
      ultimately have "dt m = dt ?l" by simp
      with dist m(1) l(1) have "m = ?l"
        by (auto simp: distinct_map dest: inj_onD)
      with m(2) L show ?L by simp
    qed
  qed
qed

subsection \<open>Claims on cycles and dwell times\<close>

text \<open>
  C4, as amended. In a frame sorted by time, an end row is paired with the most recent
  \<^verbatim>\<open>Clean Cycle In Progress\<close> row before it, whether or not an earlier end row was
  paired with the same start, and with none where no start precedes it. The pair gives a
  point of the duration statistics exactly when its duration is strictly between 60 and
  300 seconds and no \<^verbatim>\<open>Cycle interrupted\<close> row lies strictly between the two. A start
  and an end 90 seconds apart give one point; with an interruption between them they give
  none.
\<close>

theorem cycle_pairing:
  assumes "sorted (map dt df)"
  shows "(start_row_of df end_row = None \<longleftrightarrow>
            \<not> (\<exists>s\<in>set df. activity s = ''Clean Cycle In Progress'' \<and> dt s < dt end_row))
   \<and> (\<forall>s. start_row_of df end_row = Some s \<longrightarrow>
          s \<in> set df \<and> activity s = ''Clean Cycle In Progress'' \<and> dt s < dt end_row
          \<and> (\<forall>s'\<in>set df. activity s' = ''Clean Cycle In Progress'' \<and> dt s' < dt end_row
                 \<longrightarrow> dt s' \<le> dt s))
   \<and> cycle_point df end_row =
       (case start_row_of df end_row of
          None \<Rightarrow> []
        | Some s \<Rightarrow>
            if 60 < dt end_row - dt s \<and> dt end_row - dt s < 300
               \<and> \<not> (\<exists>r\<in>set df. dt s < dt r \<and> dt r < dt end_row
                                  \<and> activity r = ''Cycle interrupted'')
            then [\<lparr>point_x = dt s, point_y = real_of_int (dt end_row - dt s) / 60\<rparr>]
            else [])
   \<and> machine_health df =
       concat (map (cycle_point df) (filter (\<lambda>r. activity r = ''Clean Cycle Complete'') df))
   \<and> (activity s0 = ''Clean Cycle In Progress'' \<and> activity e0 = ''Clean Cycle Complete''
        \<and> dt e0 = dt s0 + 90
        \<longrightarrow> machine_health [s0, e0] = [\<lparr>point_x = dt s0, point_y = 90 / 60\<rparr>])
   \<and> (activity s0 = ''Clean Cycle In Progress'' \<and> activity e0 = ''Clean Cycle Complete''
        \<and> dt e0 = dt s0 + 90 \<and> activity i0 = ''Cycle interrupted''
        \<and> dt s0 < dt i0 \<and> dt i0 < dt e0
        \<longrightarrow> machine_health [s0, i0, e0] = [])"
proof -
  have pair: "\<forall>s. start_row_of df end_row = Some s \<longrightarrow>
          s \<in> set df \<and> activity s = ''Clean Cycle In Progress'' \<and> dt s < dt end_row
          \<and> (\<forall>s'\<in>set df. activity s' = ''Clean Cycle In Progress'' \<and> dt s' < dt end_row
                 \<longrightarrow> dt s' \<le> dt s)"
    using start_row_of_Some [OF assms] by blast
  have ex1: "activity s0 = ''Clean Cycle In Progress'' \<and> activity e0 = ''Clean Cycle Complete''
        \<and> dt e0 = dt s0 + 90
        \<longrightarrow> machine_health [s0, e0] = [\<lparr>point_x = dt s0, point_y = 90 / 60\<rparr>]"
    by (simp add: machine_health_def cycle_end_def cycle_point_def start_row_of_def
        cycle_start_def)
  have ex2: "activity s0 = ''Clean Cycle In Progress'' \<and> activity e0 = ''Clean Cycle Complete''
        \<and> dt e0 = dt s0 + 90 \<and> activity i0 = ''Cycle interrupted''
        \<and> dt s0 < dt i0 \<and> dt i0 < dt e0
        \<longrightarrow> machine_health [s0, i0, e0] = []"
    by (simp add: machine_health_def cycle_end_def cycle_point_def start_row_of_def
        cycle_start_def)
  have mh: "machine_health df =
       concat (map (cycle_point df) (filter (\<lambda>r. activity r = ''Clean Cycle Complete'') df))"
    by (simp add: machine_health_def cycle_end_def)
  show ?thesis
    using start_row_of_None [of df end_row] pair cycle_point_cases [of df end_row] mh ex1 ex2
    by blast
qed

theorem cycle_pairing_witness:
  "start_row_of
     [\<lparr>dt = 0, activity = ''Clean Cycle In Progress'', weight = 0, metadata = Raw_val ''0'',
       cat_identity = ''System'', flag_reason = Machine_Operation\<rparr>,
      \<lparr>dt = 90, activity = ''Clean Cycle Complete'', weight = 0, metadata = Raw_val ''0'',
       cat_identity = ''System'', flag_reason = Machine_Operation\<rparr>]
     \<lparr>dt = 90, activity = ''Clean Cycle Complete'', weight = 0, metadata = Raw_val ''0'',
      cat_identity = ''System'', flag_reason = Machine_Operation\<rparr>
   = Some \<lparr>dt = 0, activity = ''Clean Cycle In Progress'', weight = 0, metadata = Raw_val ''0'',
           cat_identity = ''System'', flag_reason = Machine_Operation\<rparr>
   \<and> machine_health
     [\<lparr>dt = 0, activity = ''Clean Cycle In Progress'', weight = 0, metadata = Raw_val ''0'',
       cat_identity = ''System'', flag_reason = Machine_Operation\<rparr>,
      \<lparr>dt = 90, activity = ''Clean Cycle Complete'', weight = 0, metadata = Raw_val ''0'',
       cat_identity = ''System'', flag_reason = Machine_Operation\<rparr>]
   = [\<lparr>point_x = 0, point_y = 3 / 2\<rparr>]
   \<and> machine_health
     [\<lparr>dt = 0, activity = ''Clean Cycle In Progress'', weight = 0, metadata = Raw_val ''0'',
       cat_identity = ''System'', flag_reason = Machine_Operation\<rparr>,
      \<lparr>dt = 40, activity = ''Cycle interrupted'', weight = 0, metadata = Raw_val ''0'',
       cat_identity = ''System'', flag_reason = Machine_Operation\<rparr>,
      \<lparr>dt = 90, activity = ''Clean Cycle Complete'', weight = 0, metadata = Raw_val ''0'',
       cat_identity = ''System'', flag_reason = Machine_Operation\<rparr>]
   = []"
  using cycle_pairing [of
    "[\<lparr>dt = 0, activity = ''Clean Cycle In Progress'', weight = 0, metadata = Raw_val ''0'',
       cat_identity = ''System'', flag_reason = Machine_Operation\<rparr>,
      \<lparr>dt = 90, activity = ''Clean Cycle Complete'', weight = 0, metadata = Raw_val ''0'',
       cat_identity = ''System'', flag_reason = Machine_Operation\<rparr>]"
    "\<lparr>dt = 90, activity = ''Clean Cycle Complete'', weight = 0, metadata = Raw_val ''0'',
      cat_identity = ''System'', flag_reason = Machine_Operation\<rparr>"
    "\<lparr>dt = 0, activity = ''Clean Cycle In Progress'', weight = 0, metadata = Raw_val ''0'',
      cat_identity = ''System'', flag_reason = Machine_Operation\<rparr>"
    "\<lparr>dt = 90, activity = ''Clean Cycle Complete'', weight = 0, metadata = Raw_val ''0'',
      cat_identity = ''System'', flag_reason = Machine_Operation\<rparr>"
    "\<lparr>dt = 40, activity = ''Cycle interrupted'', weight = 0, metadata = Raw_val ''0'',
      cat_identity = ''System'', flag_reason = Machine_Operation\<rparr>"]
  by (simp add: start_row_of_def cycle_start_def)

text \<open>
  C4 as stated fails on the word unmatched: with one start at 0 and two ends at 90 and
  180 seconds, the second end is paired with the start that the first end was paired
  with, and both pairs are counted.
\<close>

theorem cycle_pairing_counterexample:
  "start_row_of
     [\<lparr>dt = 0, activity = ''Clean Cycle In Progress'', weight = 0, metadata = Raw_val ''0'',
       cat_identity = ''System'', flag_reason = Machine_Operation\<rparr>,
      \<lparr>dt = 90, activity = ''Clean Cycle Complete'', weight = 0, metadata = Raw_val ''0'',
       cat_identity = ''System'', flag_reason = Machine_Operation\<rparr>,
      \<lparr>dt = 180, activity = ''Clean Cycle Complete'', weight = 0, metadata = Raw_val ''0'',
       cat_identity = ''System'', flag_reason = Machine_Operation\<rparr>]
     \<lparr>dt = 90, activity = ''Clean Cycle Complete'', weight = 0, metadata = Raw_val ''0'',
      cat_identity = ''System'', flag_reason = Machine_Operation\<rparr>
   = Some \<lparr>dt = 0, activity = ''Clean Cycle In Progress'', weight = 0, metadata = Raw_val ''0'',
           cat_identity = ''System'', flag_reason = Machine_Operation\<rparr>
   \<and> start_row_of
     [\<lparr>dt = 0, activity = ''Clean Cycle In Progress'', weight = 0, metadata = Raw_val ''0'',
       cat_identity = ''System'', flag_reason = Machine_Operation\<rparr>,
      \<lparr>dt = 90, activity = ''Clean Cycle Complete'', weight = 0, metadata = Raw_val ''0'',
       cat_identity = ''System'', flag_reason = Machine_Operation\<rparr>,
      \<lparr>dt = 180, activity = ''Clean Cycle Complete'', weight = 0, metadata = Raw_val ''0'',
       cat_identity = ''System'', flag_reason = Machine_Operation\<rparr>]
     \<lparr>dt = 180, activity = ''Clean Cycle Complete'', weight = 0, metadata = Raw_val ''0'',
      cat_identity = ''System'', flag_reason = Machine_Operation\<rparr>
   = Some \<lparr>dt = 0, activity = ''Clean Cycle In Progress'', weight = 0, metadata = Raw_val ''0'',
           cat_identity = ''System'', flag_reason = Machine_Operation\<rparr>
   \<and> machine_health
     [\<lparr>dt = 0, activity = ''Clean Cycle In Progress'', weight = 0, metadata = Raw_val ''0'',
       cat_identity = ''System'', flag_reason = Machine_Operation\<rparr>,
      \<lparr>dt = 90, activity = ''Clean Cycle Complete'', weight = 0, metadata = Raw_val ''0'',
       cat_identity = ''System'', flag_reason = Machine_Operation\<rparr>,
      \<lparr>dt = 180, activity = ''Clean Cycle Complete'', weight = 0, metadata = Raw_val ''0'',
       cat_identity = ''System'', flag_reason = Machine_Operation\<rparr>]
   = [\<lparr>point_x = 0, point_y = 3 / 2\<rparr>, \<lparr>point_x = 0, point_y = 3\<rparr>]"
  by (simp add: machine_health_def cycle_end_def cycle_point_def start_row_of_def
      cycle_start_def)

text \<open>
  C5, as amended. In a frame of distinct increasing times, a cycle start gives a dwell
  point for the identity \<open>cat\<close> exactly when the most recent motion event of any identity
  inside the window (from 45 to 15 minutes before the start, both ends included) has the
  identity \<open>cat\<close> and lies strictly between 0 and 30 minutes before the virtual exit; the
  point is that gap in minutes. Each start gives at most one point per identity.
\<close>

theorem dwell_estimate:
  assumes "sorted_wrt (<) (map dt df)"
  shows "(dwell_point df cat start_row = [p] \<longleftrightarrow>
     (\<exists>m\<in>set df.
        contains ''cat detected'' (lower (activity m))
        \<and> dt start_row - 45 * 60 \<le> dt m \<and> dt m \<le> dt start_row - 15 * 60
        \<and> (\<forall>m'\<in>set df. contains ''cat detected'' (lower (activity m'))
               \<and> dt start_row - 45 * 60 \<le> dt m' \<and> dt m' \<le> dt start_row - 15 * 60
               \<longrightarrow> dt m' \<le> dt m)
        \<and> cat_identity m = cat
        \<and> 0 < dt start_row - 15 * 60 - dt m \<and> dt start_row - 15 * 60 - dt m < 30 * 60
        \<and> p = \<lparr>point_x = dt start_row,
                point_y = real_of_int (dt start_row - 15 * 60 - dt m) / 60\<rparr>))
   \<and> length (dwell_point df cat start_row) \<le> 1
   \<and> cat_points df cat =
       concat (map (dwell_point df cat)
                 (filter (\<lambda>r. activity r = ''Clean Cycle In Progress'') df))"
proof -
  have "length (dwell_point df cat start_row) \<le> 1"
    by (simp add: dwell_point_def Let_def)
  moreover have "cat_points df cat =
       concat (map (dwell_point df cat)
                 (filter (\<lambda>r. activity r = ''Clean Cycle In Progress'') df))"
    by (simp add: cat_points_def cycle_start_def)
  ultimately show ?thesis
    using dwell_point_iff [OF assms, of cat start_row p] by blast
qed

theorem dwell_estimate_witness:
  "cat_points
     [\<lparr>dt = 1500, activity = ''Cat detected'', weight = 0, metadata = Raw_val ''0'',
       cat_identity = ''Luna'', flag_reason = No_Reason\<rparr>,
      \<lparr>dt = 3600, activity = ''Clean Cycle In Progress'', weight = 0, metadata = Raw_val ''0'',
       cat_identity = ''System'', flag_reason = Machine_Operation\<rparr>] ''Luna''
   = [\<lparr>point_x = 3600, point_y = 20\<rparr>]"
  using dwell_estimate [of
    "[\<lparr>dt = 1500, activity = ''Cat detected'', weight = 0, metadata = Raw_val ''0'',
       cat_identity = ''Luna'', flag_reason = No_Reason\<rparr>,
      \<lparr>dt = 3600, activity = ''Clean Cycle In Progress'', weight = 0, metadata = Raw_val ''0'',
       cat_identity = ''System'', flag_reason = Machine_Operation\<rparr>]"
    "''Luna''"
    "\<lparr>dt = 3600, activity = ''Clean Cycle In Progress'', weight = 0, metadata = Raw_val ''0'',
      cat_identity = ''System'', flag_reason = Machine_Operation\<rparr>"
    "\<lparr>point_x = 3600, point_y = 20\<rparr>"]
  by (simp add: text_eval)

text \<open>
  C5 as stated fails where a later motion event of another identity is in the window.
  The cycle starts at 3600, so the virtual exit is 2700 and the window starts at 900; Luna
  is detected at 1500 and Milo at 2000. Luna's only motion event is inside the window, 20
  minutes before the virtual exit, and no point is given for Luna; Milo gets the point.
\<close>

theorem dwell_estimate_counterexample:
  "contains ''cat detected''
     (lower (activity
        \<lparr>dt = 1500, activity = ''Cat detected'', weight = 0, metadata = Raw_val ''0'',
         cat_identity = ''Luna'', flag_reason = No_Reason\<rparr>))
   \<and> 3600 - 15 * 60 - 30 * 60 \<le> (1500 :: int) \<and> (1500 :: int) \<le> 3600 - 15 * 60
   \<and> 0 < real_of_int (3600 - 15 * 60 - 1500) / 60
   \<and> real_of_int (3600 - 15 * 60 - 1500) / 60 < 30
   \<and> cat_points
     [\<lparr>dt = 1500, activity = ''Cat detected'', weight = 0, metadata = Raw_val ''0'',
       cat_identity = ''Luna'', flag_reason = No_Reason\<rparr>,
      \<lparr>dt = 2000, activity = ''Cat detected'', weight = 0, metadata = Raw_val ''0'',
       cat_identity = ''Milo'', flag_reason = No_Reason\<rparr>,
      \<lparr>dt = 3600, activity = ''Clean Cycle In Progress'', weight = 0, metadata = Raw_val ''0'',
       cat_identity = ''System'', flag_reason = Machine_Operation\<rparr>] ''Luna''
   = []
   \<and> cat_points
     [\<lparr>dt = 1500, activity = ''Cat detected'', weight = 0, metadata = Raw_val ''0'',
       cat_identity = ''Luna'', flag_reason = No_Reason\<rparr>,
      \<lparr>dt = 2000, activity = ''Cat detected'', weight = 0, metadata = Raw_val ''0'',
       cat_identity = ''Milo'', flag_reason = No_Reason\<rparr>,
      \<lparr>dt = 3600, activity = ''Clean Cycle In Progress'', weight = 0, metadata = Raw_val ''0'',
       cat_identity = ''System'', flag_reason = Machine_Operation\<rparr>] ''Milo''
   = [\<lparr>point_x = 3600, point_y = 700 / 60\<rparr>]"
  by (simp add: cat_points_def cycle_start_def dwell_point_def text_eval)

subsection \<open>The look-ahead loop\<close>

text \<open>The rows of \<^verbatim>\<open>range(i + 1, min(i + 20, len(parsed_rows)))\<close> are the next 19 rows.\<close>

lemma look_ahead_range_take_drop:
  "look_ahead_range i parsed_rows = take 19 (drop (i + 1) parsed_rows)"
proof (rule nth_equalityI)
  show "length (look_ahead_range i parsed_rows) = length (take 19 (drop (i + 1) parsed_rows))"
    by (auto simp: look_ahead_range_def)
next
  fix k
  assume "k < length (look_ahead_range i parsed_rows)"
  then have k: "k < 19" "i + 1 + k < length parsed_rows"
    by (auto simp: look_ahead_range_def)
  then have "look_ahead_range i parsed_rows ! k = parsed_rows ! (i + 1 + k)"
    by (simp add: look_ahead_range_def)
  also have "\<dots> = take 19 (drop (i + 1) parsed_rows) ! k"
    using k by simp
  finally show "look_ahead_range i parsed_rows ! k = take 19 (drop (i + 1) parsed_rows) ! k" .
qed

lemma py_int_minutes:
  "0 \<le> d \<Longrightarrow> py_int (real_of_int d / 60) = d div 60"
  using floor_divide_of_int_eq [of d 60, where ?'a = real] by (simp add: py_int_def)

text \<open>
  The loop stops at the first row more than 7 minutes later and adopts the first row
  before that one which is a weight reading above 0.5.
\<close>

lemma look_ahead_find:
  "look_ahead row profiles futures (cat_id, reason) =
     (case find (\<lambda>f. contains ''weight recorded'' (lower (activity f)) \<and> 0.5 < weight f)
             (takeWhile (\<lambda>f. dt f - dt row \<le> 7 * 60) futures) of
        Some f \<Rightarrow> (fst (classify_row f profiles),
                   Matched (weight f) (py_int (real_of_int (dt f - dt row) / 60)))
      | None \<Rightarrow> (cat_id, reason))"
  by (induction futures) (auto simp: Let_def)

lemma sorted_later_rows:
  assumes "sorted (map dt parsed_rows)" and "i < length parsed_rows"
    and "f \<in> set (take n (drop (i + 1) parsed_rows))"
  shows "dt (parsed_rows ! i) \<le> dt f"
proof -
  from assms(3) have "f \<in> set (drop (i + 1) parsed_rows)" by (rule in_set_takeD)
  then obtain k where k: "k < length parsed_rows - (i + 1)" "f = parsed_rows ! (i + 1 + k)"
    by (auto simp: in_set_conv_nth)
  have "map dt parsed_rows ! i \<le> map dt parsed_rows ! (i + 1 + k)"
    using assms(1) k(1) by (intro sorted_nth_mono) simp_all
  then show ?thesis using k assms(2) by simp
qed

text \<open>Rows that are inside the 7 minutes and are not adopted are passed over.\<close>

lemma look_ahead_skip:
  assumes "dt f - dt row \<le> 7 * 60"
    and "\<not> (contains ''weight recorded'' (lower (activity f)) \<and> 0.5 < weight f)"
  shows "look_ahead row profiles (replicate n f @ rest) (cat_id, reason)
         = look_ahead row profiles rest (cat_id, reason)"
  using assms by (induction n) auto

subsection \<open>Claim on the look-ahead correlation\<close>

text \<open>
  C1, as amended. For a motion event at index \<open>i\<close> of a time-sorted batch, the correlator
  examines the next 19 rows at most, up to the first one that is more than 7 minutes
  later. The first examined row whose activity contains \<^verbatim>\<open>weight recorded\<close> and whose
  weight is above 0.5 gives its classifier identity to the motion event; the reason then
  records the borrowed weight and the elapsed whole minutes, unless that identity is
  \<open>Unknown\<close>, where the reason is \<^verbatim>\<open>No weight found in 7m\<close>. With no such row the
  event keeps its own classification, with the reason \<^verbatim>\<open>No weight found in 7m\<close> where
  its identity is \<open>Unknown\<close>, as it is for a motion event below 0.5 that is past the
  system check.
\<close>

theorem look_ahead_correlation:
  assumes "sorted (map dt parsed_rows)"
    and "i < length parsed_rows"
    and "contains ''cat detected'' (lower (activity (parsed_rows ! i)))"
  shows "classify_with_look_ahead i parsed_rows profiles =
     (let row = parsed_rows ! i;
          examined = takeWhile (\<lambda>f. dt f - dt row \<le> 7 * 60)
                       (take 19 (drop (i + 1) parsed_rows))
      in case find (\<lambda>f. contains ''weight recorded'' (lower (activity f)) \<and> 0.5 < weight f)
                examined of
           Some f \<Rightarrow>
             (let cat_id = fst (classify_row f profiles)
              in (cat_id, if cat_id = ''Unknown'' then No_Weight_Found
                          else Matched (weight f) ((dt f - dt row) div 60)))
         | None \<Rightarrow>
             (let (cat_id, reason) = classify_row row profiles
              in (cat_id, if cat_id = ''Unknown'' then No_Weight_Found else reason)))
   \<and> (weight (parsed_rows ! i) < 0.5
        \<and> \<not> list_ex (\<lambda>k. contains k (lower (activity (parsed_rows ! i)))) sys_keywords
        \<and> find (\<lambda>f. contains ''weight recorded'' (lower (activity f)) \<and> 0.5 < weight f)
             (takeWhile (\<lambda>f. dt f - dt (parsed_rows ! i) \<le> 7 * 60)
                (take 19 (drop (i + 1) parsed_rows))) = None
        \<longrightarrow> classify_with_look_ahead i parsed_rows profiles = (''Unknown'', No_Weight_Found))"
proof -
  let ?row = "parsed_rows ! i"
  let ?examined = "takeWhile (\<lambda>f. dt f - dt ?row \<le> 7 * 60) (take 19 (drop (i + 1) parsed_rows))"
  let ?found = "find (\<lambda>f. contains ''weight recorded'' (lower (activity f)) \<and> 0.5 < weight f)
                  ?examined"
  obtain c r where own: "classify_row ?row profiles = (c, r)"
    by (cases "classify_row ?row profiles")
  have general: "classify_with_look_ahead i parsed_rows profiles =
     (case ?found of
           Some f \<Rightarrow>
             (let cat_id = fst (classify_row f profiles)
              in (cat_id, if cat_id = ''Unknown'' then No_Weight_Found
                          else Matched (weight f) ((dt f - dt ?row) div 60)))
         | None \<Rightarrow>
             (let (cat_id, reason) = classify_row ?row profiles
              in (cat_id, if cat_id = ''Unknown'' then No_Weight_Found else reason)))"
  proof (cases ?found)
    case None
    then show ?thesis
      using assms(3)
      by (simp add: classify_with_look_ahead_def own look_ahead_find look_ahead_range_take_drop)
  next
    case (Some f)
    then have "f \<in> set ?examined" by (auto simp: find_Some_iff)
    then have "f \<in> set (take 19 (drop (i + 1) parsed_rows))" by (auto dest: set_takeWhileD)
    then have "0 \<le> dt f - dt ?row"
      using sorted_later_rows [OF assms(1,2)] by simp
    then have "py_int (real_of_int (dt f - dt ?row) / 60) = (dt f - dt ?row) div 60"
      by (rule py_int_minutes)
    then show ?thesis
      using assms(3) Some
      by (simp add: classify_with_look_ahead_def own look_ahead_find look_ahead_range_take_drop
          Let_def)
  qed
  have low: "weight ?row < 0.5
        \<and> \<not> list_ex (\<lambda>k. contains k (lower (activity ?row))) sys_keywords
        \<longrightarrow> classify_row ?row profiles = (''Unknown'', Motion_No_Weight)"
    using assms(3) by (simp add: classify_row_def Let_def)
  show ?thesis
    using general low by (auto simp: Let_def)
qed

theorem look_ahead_correlation_witness:
  "classify_with_look_ahead 0
     [\<lparr>dt = 0, activity = ''Cat detected'', weight = 0, raw_val = ''0''\<rparr>,
      \<lparr>dt = 6 * 60, activity = ''Weight recorded'', weight = fl 9.1, raw_val = ''9.1 lbs''\<rparr>]
     [\<lparr>name = ''Luna'', target_weight = 9, color_hex = ''#111111'', birthday = None\<rparr>]
   = (''Luna'', Matched (fl 9.1) 6)
   \<and> classify_with_look_ahead 0
     [\<lparr>dt = 0, activity = ''Cat detected'', weight = 0, raw_val = ''0''\<rparr>,
      \<lparr>dt = 8 * 60, activity = ''Weight recorded'', weight = fl 9.1, raw_val = ''9.1 lbs''\<rparr>]
     [\<lparr>name = ''Luna'', target_weight = 9, color_hex = ''#111111'', birthday = None\<rparr>]
   = (''Unknown'', No_Weight_Found)"
  using
    look_ahead_correlation [of
      "[\<lparr>dt = 0, activity = ''Cat detected'', weight = 0, raw_val = ''0''\<rparr>,
        \<lparr>dt = 6 * 60, activity = ''Weight recorded'', weight = fl 9.1, raw_val = ''9.1 lbs''\<rparr>]"
      0 "[\<lparr>name = ''Luna'', target_weight = 9, color_hex = ''#111111'', birthday = None\<rparr>]"]
    look_ahead_correlation [of
      "[\<lparr>dt = 0, activity = ''Cat detected'', weight = 0, raw_val = ''0''\<rparr>,
        \<lparr>dt = 8 * 60, activity = ''Weight recorded'', weight = fl 9.1, raw_val = ''9.1 lbs''\<rparr>]"
      0 "[\<lparr>name = ''Luna'', target_weight = 9, color_hex = ''#111111'', birthday = None\<rparr>]"]
  by (simp add: cat_detected_text weight_recorded_text fl_values float_sub_values classify_row_def WEIGHT_TOLERANCE_def)

text \<open>
  C1 as stated fails in four places. (1) A weight reading of exactly 0.5 one minute later
  is not adopted, though its own classification is Luna. (2) The 20th row after the motion
  event is not examined: after 19 rows of the same minute, a reading of 9.1 one minute
  later is not adopted. (3) A reading that is adopted and classified \<open>Unknown\<close> leaves
  the reason \<^verbatim>\<open>No weight found in 7m\<close>, not the borrowed weight and minutes. (4) A motion
  event that carries a weight of its own and has no reading after it keeps the identity of
  its own classification, here Luna.
\<close>

theorem look_ahead_correlation_counterexample:
  "fst (classify_row \<lparr>dt = 60, activity = ''Weight recorded'', weight = 0.5, raw_val = ''0.5 lbs''\<rparr>
     [\<lparr>name = ''Luna'', target_weight = 2, color_hex = ''#111111'', birthday = None\<rparr>]) = ''Luna''
   \<and> classify_with_look_ahead 0
     [\<lparr>dt = 0, activity = ''Cat detected'', weight = 0, raw_val = ''0''\<rparr>,
      \<lparr>dt = 60, activity = ''Weight recorded'', weight = 0.5, raw_val = ''0.5 lbs''\<rparr>]
     [\<lparr>name = ''Luna'', target_weight = 2, color_hex = ''#111111'', birthday = None\<rparr>]
     = (''Unknown'', No_Weight_Found)
   \<and> classify_with_look_ahead 0
     (\<lparr>dt = 0, activity = ''Cat detected'', weight = 0, raw_val = ''0''\<rparr>
      # replicate 19 \<lparr>dt = 0, activity = ''Cat detected'', weight = 0, raw_val = ''0''\<rparr>
      @ [\<lparr>dt = 60, activity = ''Weight recorded'', weight = fl 9.1, raw_val = ''9.1 lbs''\<rparr>])
     [\<lparr>name = ''Luna'', target_weight = 9, color_hex = ''#111111'', birthday = None\<rparr>]
     = (''Unknown'', No_Weight_Found)
   \<and> classify_with_look_ahead 0
     [\<lparr>dt = 0, activity = ''Cat detected'', weight = 0, raw_val = ''0''\<rparr>,
      \<lparr>dt = 60, activity = ''Weight recorded'', weight = fl 9.1, raw_val = ''9.1 lbs''\<rparr>]
     [\<lparr>name = ''Luna'', target_weight = 20, color_hex = ''#111111'', birthday = None\<rparr>]
     = (''Unknown'', No_Weight_Found)
   \<and> classify_with_look_ahead 0
     [\<lparr>dt = 0, activity = ''Cat detected'', weight = fl 9.1, raw_val = ''9.1 lbs''\<rparr>]
     [\<lparr>name = ''Luna'', target_weight = 9, color_hex = ''#111111'', birthday = None\<rparr>]
     = (''Luna'', No_Reason)"
proof -
  let ?m = "\<lparr>dt = 0, activity = ''Cat detected'', weight = 0, raw_val = ''0''\<rparr>"
  let ?w = "\<lparr>dt = 60, activity = ''Weight recorded'', weight = fl 9.1, raw_val = ''9.1 lbs''\<rparr>"
  let ?ps = "[\<lparr>name = ''Luna'', target_weight = 9, color_hex = ''#111111'', birthday = None\<rparr>]"
  have "look_ahead_range 0 (?m # replicate 19 ?m @ [?w]) = replicate 19 ?m @ []"
    by (simp add: look_ahead_range_take_drop)
  moreover have "look_ahead ?m ?ps (replicate 19 ?m @ []) (''Unknown'', Motion_No_Weight)
                 = look_ahead ?m ?ps [] (''Unknown'', Motion_No_Weight)"
    by (rule look_ahead_skip) (simp_all add: cat_detected_text)
  ultimately have "classify_with_look_ahead 0 (?m # replicate 19 ?m @ [?w]) ?ps
                   = (''Unknown'', No_Weight_Found)"
    by (simp add: classify_with_look_ahead_def classify_row_def cat_detected_text)
  then show ?thesis
    by (simp add: classify_with_look_ahead_def look_ahead_range_def classify_row_def
        cat_detected_text weight_recorded_text fl_values float_sub_values WEIGHT_TOLERANCE_def)
qed

subsection \<open>The insertion loop\<close>

lemma ingest_step_known:
  "dt (parsed_rows ! i) \<in> set (map dt logs)
   \<Longrightarrow> ingest_step parsed_rows profiles (logs, added) i = (logs, added)"
  by (simp add: ingest_step_def insert_usage_log_def Let_def split: prod.splits)

lemma ingest_step_new:
  "dt (parsed_rows ! i) \<notin> set (map dt logs)
   \<Longrightarrow> \<exists>e. ingest_step parsed_rows profiles (logs, added) i = (logs @ [e], added + 1)
         \<and> dt e = dt (parsed_rows ! i) \<and> weight e = weight (parsed_rows ! i)
         \<and> activity e = activity (parsed_rows ! i)
         \<and> (cat_identity e, flag_reason e) = classify_with_look_ahead i parsed_rows profiles"
  by (simp add: ingest_step_def insert_usage_log_def Let_def split: prod.splits)

text \<open>
  What a run of the loop over the indices \<open>js\<close> does to the table: the stored rows stay
  as they are, in place; every index has its key stored afterwards; each new row has the
  timestamp and weight of a parsed row.
\<close>

lemma ingest_fold:
  assumes "foldl (ingest_step parsed_rows profiles) (logs, added) js = (logs', added')"
  shows "(\<exists>new. logs' = logs @ new
            \<and> (\<forall>e\<in>set new. \<exists>i\<in>set js. dt e = dt (parsed_rows ! i)
                                        \<and> weight e = weight (parsed_rows ! i)))
         \<and> set (map dt logs') = set (map dt logs) \<union> (\<lambda>i. dt (parsed_rows ! i)) ` set js"
  using assms
proof (induction js arbitrary: logs added)
  case Nil
  then show ?case by simp
next
  case (Cons j js)
  show ?case
  proof (cases "dt (parsed_rows ! j) \<in> set (map dt logs)")
    case True
    with Cons.prems have "foldl (ingest_step parsed_rows profiles) (logs, added) js = (logs', added')"
      by (simp add: ingest_step_known)
    from Cons.IH [OF this] True show ?thesis by auto
  next
    case False
    from ingest_step_new [OF False, of profiles added] obtain e where
      e: "ingest_step parsed_rows profiles (logs, added) j = (logs @ [e], added + 1)"
         "dt e = dt (parsed_rows ! j)" "weight e = weight (parsed_rows ! j)"
      by blast
    with Cons.prems
    have "foldl (ingest_step parsed_rows profiles) (logs @ [e], added + 1) js = (logs', added')"
      by simp
    from Cons.IH [OF this] obtain new where
      new: "logs' = (logs @ [e]) @ new"
           "\<forall>x\<in>set new. \<exists>i\<in>set js. dt x = dt (parsed_rows ! i) \<and> weight x = weight (parsed_rows ! i)"
      and keys: "set (map dt logs') = set (map dt (logs @ [e])) \<union> (\<lambda>i. dt (parsed_rows ! i)) ` set js"
      by blast
    have "logs' = logs @ (e # new)" using new(1) by simp
    moreover have "\<forall>x\<in>set (e # new). \<exists>i\<in>set (j # js).
                      dt x = dt (parsed_rows ! i) \<and> weight x = weight (parsed_rows ! i)"
      using new(2) e(2,3) by auto
    moreover have "set (map dt logs') = set (map dt logs) \<union> (\<lambda>i. dt (parsed_rows ! i)) ` set (j # js)"
      using keys e(2) by auto
    ultimately show ?thesis by blast
  qed
qed

lemma ingest_fold_known:
  "\<forall>i\<in>set js. dt (parsed_rows ! i) \<in> set (map dt logs)
   \<Longrightarrow> foldl (ingest_step parsed_rows profiles) (logs, added) js = (logs, added)"
  by (induction js) (simp_all add: ingest_step_known)

lemma ingest_again:
  assumes "ingest parsed_rows profiles logs = (logs', added)"
  shows "ingest parsed_rows profiles logs' = (logs', 0)"
proof -
  from assms have "set (map dt logs')
      = set (map dt logs) \<union> (\<lambda>i. dt (parsed_rows ! i)) ` set [0 ..< length parsed_rows]"
    unfolding ingest_def by (rule ingest_fold [THEN conjunct2])
  then have "\<forall>i\<in>set [0 ..< length parsed_rows]. dt (parsed_rows ! i) \<in> set (map dt logs')"
    by blast
  then show ?thesis
    unfolding ingest_def by (rule ingest_fold_known)
qed


subsection \<open>Upload\<close>

text \<open>The rows that an upload hands to the insertion loop.\<close>

lemma upload_file_result:
  assumes "cat_profiles d \<noteq> []"
    and "ingest
           (sort_key dt
              (filter (\<lambda>row. (dt row, weight row)
                         \<notin> set (map (\<lambda>r. (bl_timestamp r, bl_weight r)) (data_blacklist d)))
                 candidates))
           (cat_profiles d) (usage_logs d) = (logs', added)"
  shows "upload_file now fname candidates d =
     d\<lparr>usage_logs := logs',
       upload_history := upload_history d
         @ [\<lparr>upload_date = now, filename = fname, entries_added = added\<rparr>]\<rparr>"
  using assms by (simp add: upload_file_def Let_def)

lemma upload_file_refused:
  "cat_profiles d = [] \<Longrightarrow> upload_file now fname candidates d = d"
  by (simp add: upload_file_def)

subsection \<open>Claims on the ledger\<close>

lemmas ledger_eval =
  upload_file_def ingest_def ingest_step_def insert_usage_log_def classify_with_look_ahead_def
  look_ahead_range_def classify_row_def WEIGHT_TOLERANCE_def

text \<open>
  The same parsed rows handed to the insertion a second time: the table stays as the first
  time left it, and nothing is counted as added.
\<close>

lemma upload_file_twice:
  "usage_logs (upload_file now2 fname2 candidates (upload_file now1 fname1 candidates d))
     = usage_logs (upload_file now1 fname1 candidates d)
   \<and> (cat_profiles d \<noteq> [] \<longrightarrow>
        upload_history (upload_file now2 fname2 candidates (upload_file now1 fname1 candidates d))
          = upload_history (upload_file now1 fname1 candidates d)
            @ [\<lparr>upload_date = now2, filename = fname2, entries_added = 0\<rparr>])
   \<and> (dt e \<in> set (map dt logs) \<longrightarrow> insert_usage_log e logs = Inl IntegrityError)
   \<and> (dt (parsed_rows ! i) \<in> set (map dt logs) \<longrightarrow>
        ingest_step parsed_rows profiles (logs, added) i = (logs, added))"
proof -
  let ?d1 = "upload_file now1 fname1 candidates d"
  let ?d2 = "upload_file now2 fname2 candidates ?d1"
  have twice: "usage_logs ?d2 = usage_logs ?d1
     \<and> (cat_profiles d \<noteq> [] \<longrightarrow>
          upload_history ?d2
            = upload_history ?d1 @ [\<lparr>upload_date = now2, filename = fname2, entries_added = 0\<rparr>])"
  proof (cases "cat_profiles d = []")
    case True
    then show ?thesis by (simp add: upload_file_refused)
  next
    case False
    let ?rows = "sort_key dt
            (filter (\<lambda>row. (dt row, weight row)
                       \<notin> set (map (\<lambda>r. (bl_timestamp r, bl_weight r)) (data_blacklist d)))
               candidates)"
    obtain logs' added' where r: "ingest ?rows (cat_profiles d) (usage_logs d) = (logs', added')"
      by (cases "ingest ?rows (cat_profiles d) (usage_logs d)")
    have d1: "?d1 = d\<lparr>usage_logs := logs',
           upload_history := upload_history d
             @ [\<lparr>upload_date = now1, filename = fname1, entries_added = added'\<rparr>]\<rparr>"
      using False r by (rule upload_file_result)
    then have same: "cat_profiles ?d1 = cat_profiles d" "data_blacklist ?d1 = data_blacklist d"
      "usage_logs ?d1 = logs'"
      by simp_all
    have ne: "cat_profiles ?d1 \<noteq> []" using False same(1) by simp
    have "ingest ?rows (cat_profiles d) logs' = (logs', 0)"
      using r by (rule ingest_again)
    then have again: "ingest
           (sort_key dt
              (filter (\<lambda>row. (dt row, weight row)
                         \<notin> set (map (\<lambda>r. (bl_timestamp r, bl_weight r)) (data_blacklist ?d1)))
                 candidates))
           (cat_profiles ?d1) (usage_logs ?d1) = (logs', 0)"
      by (simp only: same)
    have "?d2 = ?d1\<lparr>usage_logs := logs',
           upload_history := upload_history ?d1
             @ [\<lparr>upload_date = now2, filename = fname2, entries_added = 0\<rparr>]\<rparr>"
      using ne again by (rule upload_file_result)
    then have "usage_logs ?d2 = logs'"
      and "upload_history ?d2
             = upload_history ?d1 @ [\<lparr>upload_date = now2, filename = fname2, entries_added = 0\<rparr>]"
      by (metis db.select_convs(1) db.surjective db.update_convs(1,2),
          metis db.select_convs(2) db.surjective db.update_convs(1,2))
    with same(3) show ?thesis by simp
  qed
  have "dt e \<in> set (map dt logs) \<longrightarrow> insert_usage_log e logs = Inl IntegrityError"
    by (simp add: insert_usage_log_def)
  moreover have "dt (parsed_rows ! i) \<in> set (map dt logs) \<longrightarrow>
        ingest_step parsed_rows profiles (logs, added) i = (logs, added)"
    by (simp add: ingest_step_known)
  ultimately show ?thesis using twice by blast
qed


text \<open>
  C8, as amended. Uploading the same file a second time in the same year, with the same
  \<^verbatim>\<open>TIMEZONE_OFFSET\<close>, leaves \<^verbatim>\<open>usage_logs\<close> as the first upload left it, and the audit
  record of the second upload counts 0 added rows. An insertion under a stored timestamp
  raises the integrity error, which the loop passes over: the table and the count stay as
  they are.
\<close>

theorem upload_twice:
  "usage_logs (upload current_year TIMEZONE_OFFSET now2 fname2 rows
                 (upload current_year TIMEZONE_OFFSET now1 fname1 rows d))
     = usage_logs (upload current_year TIMEZONE_OFFSET now1 fname1 rows d)
   \<and> (cat_profiles d \<noteq> [] \<longrightarrow>
        upload_history (upload current_year TIMEZONE_OFFSET now2 fname2 rows
                          (upload current_year TIMEZONE_OFFSET now1 fname1 rows d))
          = upload_history (upload current_year TIMEZONE_OFFSET now1 fname1 rows d)
            @ [\<lparr>upload_date = now2, filename = fname2, entries_added = 0\<rparr>])
   \<and> usage_logs (upload_file now2 fname2 candidates (upload_file now1 fname1 candidates d))
     = usage_logs (upload_file now1 fname1 candidates d)
   \<and> (dt e \<in> set (map dt logs) \<longrightarrow> insert_usage_log e logs = Inl IntegrityError)
   \<and> (dt (parsed_rows ! i) \<in> set (map dt logs) \<longrightarrow>
        ingest_step parsed_rows profiles (logs, added) i = (logs, added))"
  using
    upload_file_twice [of now2 fname2
      "List.map_filter (parse_row current_year TIMEZONE_OFFSET) rows" now1 fname1 d
      e logs parsed_rows i profiles added]
    upload_file_twice [of now2 fname2 candidates now1 fname1 d e logs parsed_rows i profiles added]
  unfolding upload_def by blast

theorem upload_twice_witness:
  "usage_logs
     (upload 2026 5 ''2026-01-02 10:00'' ''log.csv''
        [\<lparr>raw_activity = ''Cat detected'', ts_month = 1, ts_day = 1, ts_hour = 10, ts_minute = 0,
       ts_meridiem = ''AM'', lbs_weight = 0, raw_value = ''0''\<rparr>,
         \<lparr>raw_activity = ''Weight recorded'', ts_month = 1, ts_day = 1, ts_hour = 10,
       ts_minute = 6, ts_meridiem = ''AM'', lbs_weight = fl 9.1, raw_value = ''9.1 lbs''\<rparr>]
        (upload 2026 5 ''2026-01-01 10:00'' ''log.csv''
           [\<lparr>raw_activity = ''Cat detected'', ts_month = 1, ts_day = 1, ts_hour = 10, ts_minute = 0,
       ts_meridiem = ''AM'', lbs_weight = 0, raw_value = ''0''\<rparr>,
            \<lparr>raw_activity = ''Weight recorded'', ts_month = 1, ts_day = 1, ts_hour = 10,
       ts_minute = 6, ts_meridiem = ''AM'', lbs_weight = fl 9.1, raw_value = ''9.1 lbs''\<rparr>]
           \<lparr>usage_logs = [], upload_history = [], data_blacklist = [],
       cat_profiles =
         [\<lparr>name = ''Luna'', target_weight = 9, color_hex = ''#111111'', birthday = None\<rparr>]\<rparr>))
   = [\<lparr>dt = 63902840400, activity = ''Cat detected'', weight = 0, metadata = Raw_val ''0'',
       cat_identity = ''Luna'', flag_reason = Matched (fl 9.1) 6\<rparr>,
      \<lparr>dt = 63902840760, activity = ''Weight recorded'', weight = fl 9.1,
       metadata = Raw_val ''9.1 lbs'', cat_identity = ''Luna'', flag_reason = No_Reason\<rparr>]
   \<and> upload_history
     (upload 2026 5 ''2026-01-02 10:00'' ''log.csv''
        [\<lparr>raw_activity = ''Cat detected'', ts_month = 1, ts_day = 1, ts_hour = 10, ts_minute = 0,
       ts_meridiem = ''AM'', lbs_weight = 0, raw_value = ''0''\<rparr>,
         \<lparr>raw_activity = ''Weight recorded'', ts_month = 1, ts_day = 1, ts_hour = 10,
       ts_minute = 6, ts_meridiem = ''AM'', lbs_weight = fl 9.1, raw_value = ''9.1 lbs''\<rparr>]
        (upload 2026 5 ''2026-01-01 10:00'' ''log.csv''
           [\<lparr>raw_activity = ''Cat detected'', ts_month = 1, ts_day = 1, ts_hour = 10, ts_minute = 0,
       ts_meridiem = ''AM'', lbs_weight = 0, raw_value = ''0''\<rparr>,
            \<lparr>raw_activity = ''Weight recorded'', ts_month = 1, ts_day = 1, ts_hour = 10,
       ts_minute = 6, ts_meridiem = ''AM'', lbs_weight = fl 9.1, raw_value = ''9.1 lbs''\<rparr>]
           \<lparr>usage_logs = [], upload_history = [], data_blacklist = [],
       cat_profiles =
         [\<lparr>name = ''Luna'', target_weight = 9, color_hex = ''#111111'', birthday = None\<rparr>]\<rparr>))
   = [\<lparr>upload_date = ''2026-01-01 10:00'', filename = ''log.csv'', entries_added = 2\<rparr>,
      \<lparr>upload_date = ''2026-01-02 10:00'', filename = ''log.csv'', entries_added = 0\<rparr>]
   \<and> insert_usage_log
       \<lparr>dt = 0, activity = ''Cat detected'', weight = 0, metadata = Raw_val ''0'',
        cat_identity = ''Unknown'', flag_reason = No_Weight_Found\<rparr>
       [\<lparr>dt = 0, activity = ''Cat detected'', weight = 0, metadata = Raw_val ''0'',
         cat_identity = ''Luna'', flag_reason = Matched (fl 9.1) 6\<rparr>]
     = Inl IntegrityError
   \<and> ingest_step
       [\<lparr>dt = 0, activity = ''Cat detected'', weight = 0, raw_val = ''0''\<rparr>]
       [\<lparr>name = ''Luna'', target_weight = 9, color_hex = ''#111111'', birthday = None\<rparr>]
       ([\<lparr>dt = 0, activity = ''Cat detected'', weight = 0, metadata = Raw_val ''0'',
          cat_identity = ''Luna'', flag_reason = Matched (fl 9.1) 6\<rparr>], 1) 0
     = ([\<lparr>dt = 0, activity = ''Cat detected'', weight = 0, metadata = Raw_val ''0'',
          cat_identity = ''Luna'', flag_reason = Matched (fl 9.1) 6\<rparr>], 1)"
proof -
  let ?rows = "[\<lparr>raw_activity = ''Cat detected'', ts_month = 1, ts_day = 1, ts_hour = 10, ts_minute = 0,
       ts_meridiem = ''AM'', lbs_weight = 0, raw_value = ''0''\<rparr>,
     \<lparr>raw_activity = ''Weight recorded'', ts_month = 1, ts_day = 1, ts_hour = 10,
       ts_minute = 6, ts_meridiem = ''AM'', lbs_weight = fl 9.1, raw_value = ''9.1 lbs''\<rparr>]"
  let ?ps = "[\<lparr>name = ''Luna'', target_weight = 9, color_hex = ''#111111'', birthday = None\<rparr>]"
  let ?d = "\<lparr>usage_logs = [], upload_history = [], data_blacklist = [], cat_profiles = ?ps\<rparr>"
  let ?stored = "\<lparr>dt = 0, activity = ''Cat detected'', weight = 0, metadata = Raw_val ''0'',
     cat_identity = ''Luna'', flag_reason = Matched (fl 9.1) 6\<rparr>"
  have parsed: "List.map_filter (parse_row 2026 5) ?rows =
     [\<lparr>dt = 63902840400, activity = ''Cat detected'', weight = 0, raw_val = ''0''\<rparr>,
      \<lparr>dt = 63902840760, activity = ''Weight recorded'', weight = fl 9.1,
       raw_val = ''9.1 lbs''\<rparr>]"
    by (simp add: List.map_filter_def parse_row_def datetime_def days_in_months_def
        days_before_year_def days_before_month_def is_leap_def text_eval)
  have once: "upload 2026 5 ''2026-01-01 10:00'' ''log.csv'' ?rows ?d =
     \<lparr>usage_logs =
        [\<lparr>dt = 63902840400, activity = ''Cat detected'', weight = 0, metadata = Raw_val ''0'',
          cat_identity = ''Luna'', flag_reason = Matched (fl 9.1) 6\<rparr>,
         \<lparr>dt = 63902840760, activity = ''Weight recorded'', weight = fl 9.1,
          metadata = Raw_val ''9.1 lbs'', cat_identity = ''Luna'', flag_reason = No_Reason\<rparr>],
      upload_history =
        [\<lparr>upload_date = ''2026-01-01 10:00'', filename = ''log.csv'', entries_added = 2\<rparr>],
      data_blacklist = [], cat_profiles = ?ps\<rparr>"
    unfolding upload_def parsed
    by (simp add: ledger_eval cat_detected_text weight_recorded_text fl_values float_sub_values
        py_int_def)
  show ?thesis
    using upload_twice [of 2026 5 "''2026-01-02 10:00''" "''log.csv''" ?rows
        "''2026-01-01 10:00''" "''log.csv''" ?d "[]"
        "\<lparr>dt = 0, activity = ''Cat detected'', weight = 0, metadata = Raw_val ''0'',
          cat_identity = ''Unknown'', flag_reason = No_Weight_Found\<rparr>"
        "[?stored]" "[\<lparr>dt = 0, activity = ''Cat detected'', weight = 0, raw_val = ''0''\<rparr>]"
        0 ?ps 1]
    by (simp add: once)
qed

text \<open>
  C8 as stated fails across New Year: the file has no year, and the key of a row is built
  with the year of the upload. The same file, one motion event of 1 January 10:00 AM,
  uploaded in 2025 and again in 2026 is stored twice, under two timestamps a year apart,
  and the second upload counts 1 added row.
\<close>

theorem upload_twice_counterexample:
  "usage_logs
     (upload 2025 5 ''2025-12-31 23:00'' ''log.csv''
        [\<lparr>raw_activity = ''Cat detected'', ts_month = 1, ts_day = 1, ts_hour = 10, ts_minute = 0,
       ts_meridiem = ''AM'', lbs_weight = 0, raw_value = ''0''\<rparr>]
        \<lparr>usage_logs = [], upload_history = [], data_blacklist = [],
       cat_profiles =
         [\<lparr>name = ''Luna'', target_weight = 9, color_hex = ''#111111'', birthday = None\<rparr>]\<rparr>)
   = [\<lparr>dt = 63871304400, activity = ''Cat detected'', weight = 0, metadata = Raw_val ''0'',
       cat_identity = ''Unknown'', flag_reason = No_Weight_Found\<rparr>]
   \<and> usage_logs
     (upload 2026 5 ''2026-01-01 01:00'' ''log.csv''
        [\<lparr>raw_activity = ''Cat detected'', ts_month = 1, ts_day = 1, ts_hour = 10, ts_minute = 0,
       ts_meridiem = ''AM'', lbs_weight = 0, raw_value = ''0''\<rparr>]
        (upload 2025 5 ''2025-12-31 23:00'' ''log.csv''
           [\<lparr>raw_activity = ''Cat detected'', ts_month = 1, ts_day = 1, ts_hour = 10, ts_minute = 0,
       ts_meridiem = ''AM'', lbs_weight = 0, raw_value = ''0''\<rparr>]
           \<lparr>usage_logs = [], upload_history = [], data_blacklist = [],
       cat_profiles =
         [\<lparr>name = ''Luna'', target_weight = 9, color_hex = ''#111111'', birthday = None\<rparr>]\<rparr>))
   = [\<lparr>dt = 63871304400, activity = ''Cat detected'', weight = 0, metadata = Raw_val ''0'',
       cat_identity = ''Unknown'', flag_reason = No_Weight_Found\<rparr>,
      \<lparr>dt = 63902840400, activity = ''Cat detected'', weight = 0, metadata = Raw_val ''0'',
       cat_identity = ''Unknown'', flag_reason = No_Weight_Found\<rparr>]
   \<and> map entries_added (upload_history
     (upload 2026 5 ''2026-01-01 01:00'' ''log.csv''
        [\<lparr>raw_activity = ''Cat detected'', ts_month = 1, ts_day = 1, ts_hour = 10, ts_minute = 0,
       ts_meridiem = ''AM'', lbs_weight = 0, raw_value = ''0''\<rparr>]
        (upload 2025 5 ''2025-12-31 23:00'' ''log.csv''
           [\<lparr>raw_activity = ''Cat detected'', ts_month = 1, ts_day = 1, ts_hour = 10, ts_minute = 0,
       ts_meridiem = ''AM'', lbs_weight = 0, raw_value = ''0''\<rparr>]
           \<lparr>usage_logs = [], upload_history = [], data_blacklist = [],
       cat_profiles =
         [\<lparr>name = ''Luna'', target_weight = 9, color_hex = ''#111111'', birthday = None\<rparr>]\<rparr>)))
   = [1, 1]"
proof -
  let ?rows = "[\<lparr>raw_activity = ''Cat detected'', ts_month = 1, ts_day = 1, ts_hour = 10, ts_minute = 0,
       ts_meridiem = ''AM'', lbs_weight = 0, raw_value = ''0''\<rparr>]"
  let ?ps = "[\<lparr>name = ''Luna'', target_weight = 9, color_hex = ''#111111'', birthday = None\<rparr>]"
  have parsed: "List.map_filter (parse_row 2025 5) ?rows =
       [\<lparr>dt = 63871304400, activity = ''Cat detected'', weight = 0, raw_val = ''0''\<rparr>]"
    "List.map_filter (parse_row 2026 5) ?rows =
       [\<lparr>dt = 63902840400, activity = ''Cat detected'', weight = 0, raw_val = ''0''\<rparr>]"
    by (simp_all add: List.map_filter_def parse_row_def datetime_def days_in_months_def
        days_before_year_def days_before_month_def is_leap_def text_eval)
  show ?thesis
    unfolding upload_def parsed
    by (simp add: ledger_eval cat_detected_text)
qed




end
